theory Spec2Isabelle
  imports Complex_Main
begin

section \<open>JavaScript values and numbers\<close>

text \<open>
  The service reads device records from a JSON document and inspects their fields with
  \<^verbatim>\<open>typeof\<close>, truthiness, \<^verbatim>\<open>===\<close>, \<^verbatim>\<open>??\<close>, arithmetic and template literals. The model
  takes a field to be a JavaScript primitive: missing (\<^verbatim>\<open>undefined\<close>), \<^verbatim>\<open>null\<close>, a Boolean, a
  number or a string; an array or an object as the value of one of these fields is
  outside the model. A number is a finite IEEE double, carried by its exact rational
  value (JSON text cannot denote NaN; the two zeros are identified, which no operation
  used here can tell apart). A string is its UTF-8 byte sequence.
\<close>

datatype jsval = JUndefined | JNull | JBool bool | JNum rat | JStr string

text \<open>Results of arithmetic also include NaN and the two infinities.\<close>

datatype jsnum = NaN | PosInf | NegInf | Fin rat

text \<open>ToBoolean: what \<^verbatim>\<open>!v\<close>, \<^verbatim>\<open>v || w\<close> and \<^verbatim>\<open>v ? a : b\<close> test.\<close>

fun truthy :: "jsval \<Rightarrow> bool" where
  "truthy JUndefined = False"
| "truthy JNull = False"
| "truthy (JBool b) = b"
| "truthy (JNum x) = (x \<noteq> 0)"
| "truthy (JStr s) = (s \<noteq> [])"

text \<open>\<^verbatim>\<open>a || b\<close> on values, and the test that \<^verbatim>\<open>a ?? b\<close> makes on \<open>a\<close>.\<close>

definition js_or :: "jsval \<Rightarrow> jsval \<Rightarrow> jsval" where
  "js_or a b = (if truthy a then a else b)"

definition nullish :: "jsval \<Rightarrow> bool" where
  "nullish v = (v = JUndefined \<or> v = JNull)"

subsection \<open>Rounding to a double\<close>

text \<open>Number of digits of \<open>n\<close> in base \<open>b\<close> (0 for 0).\<close>

function digit_count :: "nat \<Rightarrow> nat \<Rightarrow> nat" where
  "digit_count b n = (if n = 0 \<or> b < 2 then 0 else Suc (digit_count b (n div b)))"
  by pat_completeness auto
termination
  by (relation "measure snd") auto

declare digit_count.simps [simp del]

text \<open>\<open>ilog b a\<close> is the integer \<open>e\<close> with \<open>b ^ e \<le> a < b ^ (e + 1)\<close>, for \<open>a > 0\<close>.\<close>

definition ilog :: "nat \<Rightarrow> rat \<Rightarrow> int" where
  "ilog b a =
     (if 1 \<le> a then int (digit_count b (nat \<lfloor>a\<rfloor>)) - 1
      else - int (digit_count b (nat \<lceil>1 / a\<rceil> - 1)))"

definition pow_int :: "rat \<Rightarrow> int \<Rightarrow> rat" where
  "pow_int b k = (if 0 \<le> k then b ^ nat k else 1 / b ^ nat (- k))"

definition round_half_even :: "rat \<Rightarrow> int" where
  "round_half_even r =
     (let f = \<lfloor>r\<rfloor>; d = r - of_int f
      in if d < 1 / 2 then f else if 1 / 2 < d then f + 1 else if even f then f else f + 1)"

definition inf_of :: "bool \<Rightarrow> jsnum" where
  "inf_of positive = (if positive then PosInf else NegInf)"

text \<open>
  The double nearest to a real value, ties to the even significand: 53 significant
  bits, exponents from \<open>-1022\<close> (below it the spacing stays \<open>2 ^ -1074\<close>). The largest
  double is \<open>(2 ^ 53 - 1) * 2 ^ 971\<close>: a value with exponent 1024 or more, or one that
  rounds up to \<open>2 ^ 53 * 2 ^ 971\<close>, becomes an infinity.
\<close>

definition fl :: "rat \<Rightarrow> jsnum" where
  "fl x =
     (if x = 0 then Fin 0
      else let a = \<bar>x\<bar>;
               e = max (ilog 2 a) (- 1022);
               q = pow_int 2 (e - 52);
               n = round_half_even (a / q)
           in if 1024 \<le> e \<or> (e = 1023 \<and> n = 2 ^ 53) then inf_of (0 < x)
              else Fin (if 0 < x then of_int n * q else - (of_int n * q)))"

subsection \<open>Arithmetic and comparison\<close>

definition is_zero :: "jsnum \<Rightarrow> bool" where
  "is_zero a = (a = Fin 0)"

fun positive :: "jsnum \<Rightarrow> bool" where
  "positive (Fin x) = (0 \<le> x)"
| "positive PosInf = True"
| "positive NegInf = False"
| "positive NaN = False"

fun js_mul :: "jsnum \<Rightarrow> jsnum \<Rightarrow> jsnum" where
  "js_mul NaN b = NaN"
| "js_mul a NaN = NaN"
| "js_mul (Fin x) (Fin y) = fl (x * y)"
| "js_mul a b = (if is_zero a \<or> is_zero b then NaN else inf_of (positive a = positive b))"

fun js_sub :: "jsnum \<Rightarrow> jsnum \<Rightarrow> jsnum" where
  "js_sub NaN b = NaN"
| "js_sub a NaN = NaN"
| "js_sub (Fin x) (Fin y) = fl (x - y)"
| "js_sub PosInf PosInf = NaN"
| "js_sub NegInf NegInf = NaN"
| "js_sub PosInf b = PosInf"
| "js_sub NegInf b = NegInf"
| "js_sub (Fin x) PosInf = NegInf"
| "js_sub (Fin x) NegInf = PosInf"

fun js_div :: "jsnum \<Rightarrow> jsnum \<Rightarrow> jsnum" where
  "js_div NaN b = NaN"
| "js_div a NaN = NaN"
| "js_div (Fin x) (Fin y) =
     (if y = 0 then (if x = 0 then NaN else inf_of (0 < x)) else fl (x / y))"
| "js_div (Fin x) b = Fin 0"
| "js_div a (Fin y) = inf_of (positive a = (0 \<le> y))"
| "js_div a b = NaN"

fun js_lt :: "jsnum \<Rightarrow> jsnum \<Rightarrow> bool" where
  "js_lt NaN b = False"
| "js_lt a NaN = False"
| "js_lt (Fin x) (Fin y) = (x < y)"
| "js_lt a NegInf = False"
| "js_lt PosInf b = False"
| "js_lt a b = True"

definition js_gt :: "jsnum \<Rightarrow> jsnum \<Rightarrow> bool" where
  "js_gt a b = js_lt b a"

subsection \<open>Strings to numbers\<close>

text \<open>
  The white space and line terminators that StringToNumber strips from both ends,
  as UTF-8 byte sequences: TAB, LF, VT, FF, CR, SP, U+00A0, U+1680, U+2000 to U+200A,
  U+2028, U+2029, U+202F, U+205F, U+3000 and U+FEFF.
\<close>

definition ws_tokens :: "string list" where
  "ws_tokens =
     [[CHR 0x09], [CHR 0x0A], [CHR 0x0B], [CHR 0x0C], [CHR 0x0D], [CHR 0x20],
      [CHR 0xC2, CHR 0xA0], [CHR 0xE1, CHR 0x9A, CHR 0x80],
      [CHR 0xE2, CHR 0x80, CHR 0x80], [CHR 0xE2, CHR 0x80, CHR 0x81],
      [CHR 0xE2, CHR 0x80, CHR 0x82], [CHR 0xE2, CHR 0x80, CHR 0x83],
      [CHR 0xE2, CHR 0x80, CHR 0x84], [CHR 0xE2, CHR 0x80, CHR 0x85],
      [CHR 0xE2, CHR 0x80, CHR 0x86], [CHR 0xE2, CHR 0x80, CHR 0x87],
      [CHR 0xE2, CHR 0x80, CHR 0x88], [CHR 0xE2, CHR 0x80, CHR 0x89],
      [CHR 0xE2, CHR 0x80, CHR 0x8A], [CHR 0xE2, CHR 0x80, CHR 0xA8],
      [CHR 0xE2, CHR 0x80, CHR 0xA9], [CHR 0xE2, CHR 0x80, CHR 0xAF],
      [CHR 0xE2, CHR 0x81, CHR 0x9F], [CHR 0xE3, CHR 0x80, CHR 0x80],
      [CHR 0xEF, CHR 0xBB, CHR 0xBF]]"

definition ws_len :: "string list \<Rightarrow> string \<Rightarrow> nat" where
  "ws_len toks s =
     (case find (\<lambda>t. take (length t) s = t) toks of None \<Rightarrow> 0 | Some t \<Rightarrow> length t)"

primrec drop_ws :: "string list \<Rightarrow> nat \<Rightarrow> string \<Rightarrow> string" where
  "drop_ws toks 0 s = s"
| "drop_ws toks (Suc n) s =
     (let k = ws_len toks s in if k = 0 then s else drop_ws toks n (drop k s))"

definition trim :: "string \<Rightarrow> string" where
  "trim s =
     (let t = drop_ws ws_tokens (length s) s
      in rev (drop_ws (map rev ws_tokens) (length t) (rev t)))"

definition digit_of :: "nat \<Rightarrow> char \<Rightarrow> nat option" where
  "digit_of base c =
     (let n = of_char c :: nat;
          d = (if 48 \<le> n \<and> n \<le> 57 then n - 48
               else if 97 \<le> n \<and> n \<le> 102 then n - 87
               else if 65 \<le> n \<and> n \<le> 70 then n - 55
               else 16)
      in if d < base then Some d else None)"

definition is_digit :: "char \<Rightarrow> bool" where
  "is_digit c = (digit_of 10 c \<noteq> None)"

definition parse_nat :: "nat \<Rightarrow> string \<Rightarrow> nat" where
  "parse_nat base s =
     foldl (\<lambda>acc c. acc * base + (case digit_of base c of Some d \<Rightarrow> d | None \<Rightarrow> 0)) 0 s"

text \<open>
  The exponent part of a decimal literal: nothing, or \<^verbatim>\<open>e\<close>/\<^verbatim>\<open>E\<close>, an optional sign and
  at least one digit. \<open>None\<close> when the text is something else.
\<close>

definition parse_exponent :: "string \<Rightarrow> int option" where
  "parse_exponent s =
     (case s of
        [] \<Rightarrow> Some 0
      | c # cs \<Rightarrow>
          if c = CHR ''e'' \<or> c = CHR ''E'' then
            (let neg = (cs \<noteq> [] \<and> hd cs = CHR ''-'');
                 ds = (if cs \<noteq> [] \<and> (hd cs = CHR ''-'' \<or> hd cs = CHR ''+'') then tl cs else cs)
             in if ds \<noteq> [] \<and> list_all is_digit ds
                then Some (if neg then - int (parse_nat 10 ds) else int (parse_nat 10 ds))
                else None)
          else None)"

text \<open>
  StrUnsignedDecimalLiteral, with the sign already read: \<^verbatim>\<open>Infinity\<close>, or digits with
  an optional fraction and exponent, at least one digit before or after the point.
\<close>

definition str_decimal :: "bool \<Rightarrow> string \<Rightarrow> jsnum" where
  "str_decimal neg u =
     (if u = ''Infinity'' then inf_of (\<not> neg)
      else let ip = takeWhile is_digit u;
               r1 = dropWhile is_digit u;
               dot = (r1 \<noteq> [] \<and> hd r1 = CHR ''.'');
               fp = (if dot then takeWhile is_digit (tl r1) else []);
               r2 = (if dot then dropWhile is_digit (tl r1) else r1)
           in if ip = [] \<and> fp = [] then NaN
              else (case parse_exponent r2 of
                      None \<Rightarrow> NaN
                    | Some e \<Rightarrow>
                        let v = of_nat (parse_nat 10 (ip @ fp)) * pow_int 10 (e - int (length fp))
                        in fl (if neg then - v else v)))"

definition radix_of :: "char \<Rightarrow> nat option" where
  "radix_of c =
     (if c = CHR ''x'' \<or> c = CHR ''X'' then Some 16
      else if c = CHR ''o'' \<or> c = CHR ''O'' then Some 8
      else if c = CHR ''b'' \<or> c = CHR ''B'' then Some 2
      else None)"

definition string_to_number :: "string \<Rightarrow> jsnum" where
  "string_to_number s =
     (let t = trim s
      in case t of
           [] \<Rightarrow> Fin 0
         | c # cs \<Rightarrow>
             (case (if c = CHR ''0'' \<and> cs \<noteq> [] then radix_of (hd cs) else None) of
                Some base \<Rightarrow>
                  if tl cs \<noteq> [] \<and> list_all (\<lambda>d. digit_of base d \<noteq> None) (tl cs)
                  then fl (of_nat (parse_nat base (tl cs)))
                  else NaN
              | None \<Rightarrow>
                  if c = CHR ''+'' then str_decimal False cs
                  else if c = CHR ''-'' then str_decimal True cs
                  else str_decimal False t))"

text \<open>ToNumber on a primitive: what \<^verbatim>\<open>v * 1000\<close> does to \<open>v\<close> first.\<close>

fun to_number :: "jsval \<Rightarrow> jsnum" where
  "to_number JUndefined = NaN"
| "to_number JNull = Fin 0"
| "to_number (JBool b) = Fin (if b then 1 else 0)"
| "to_number (JNum x) = Fin x"
| "to_number (JStr s) = string_to_number s"

subsection \<open>Numbers to strings\<close>

definition digit_char :: "nat \<Rightarrow> char" where
  "digit_char d = ''0123456789abcdef'' ! d"

function digits10 :: "nat \<Rightarrow> string" where
  "digits10 n = (if n < 10 then [digit_char n] else digits10 (n div 10) @ [digit_char (n mod 10)])"
  by pat_completeness auto
termination
  by (relation "measure id") auto

declare digits10.simps [simp del]

text \<open>
  Number::toString writes the shortest decimal digit string that reads back as the same
  double. \<open>digit_candidates x n k\<close> are the \<open>k\<close>-digit integers \<open>s\<close> next to \<open>x / 10 ^ (n - k)\<close>
  for which \<open>s * 10 ^ (n - k)\<close> rounds to \<open>x\<close>; \<open>shortest\<close> tries \<open>k = 1, 2, ...\<close> and
  takes the candidate nearer to \<open>x\<close> (17 digits always suffice for a double).
\<close>

definition digit_candidates :: "rat \<Rightarrow> int \<Rightarrow> nat \<Rightarrow> int list" where
  "digit_candidates x n k =
     (let sc = pow_int 10 (n - int k); lo = \<lfloor>x / sc\<rfloor>
      in filter (\<lambda>c. fl (of_int c * sc) = Fin x) [lo, lo + 1])"

definition nearer :: "rat \<Rightarrow> rat \<Rightarrow> int list \<Rightarrow> int" where
  "nearer x sc cs =
     (case cs of
        [] \<Rightarrow> \<lfloor>x / sc\<rfloor>
      | [c] \<Rightarrow> c
      | c # d # _ \<Rightarrow>
          if x - of_int c * sc < of_int d * sc - x then c
          else if of_int d * sc - x < x - of_int c * sc then d
          else if even c then c else d)"

fun shortest :: "rat \<Rightarrow> int \<Rightarrow> nat \<Rightarrow> nat \<Rightarrow> int \<times> nat" where
  "shortest x n k 0 = (nearer x (pow_int 10 (n - int k)) [], k)"
| "shortest x n k (Suc fuel) =
     (case digit_candidates x n k of
        [] \<Rightarrow> shortest x n (Suc k) fuel
      | cs \<Rightarrow> (nearer x (pow_int 10 (n - int k)) cs, k))"

definition strip_zeros :: "string \<Rightarrow> string" where
  "strip_zeros ds = rev (dropWhile (\<lambda>c. c = CHR ''0'') (rev ds))"

text \<open>The layout of Number::toString for digits \<open>ds\<close> and decimal exponent \<open>n\<close>.\<close>

definition layout :: "string \<Rightarrow> int \<Rightarrow> string" where
  "layout ds n =
     (let k = int (length ds)
      in if k \<le> n \<and> n \<le> 21 then ds @ replicate (nat (n - k)) (CHR ''0'')
         else if 0 < n \<and> n \<le> 21 then take (nat n) ds @ ''.'' @ drop (nat n) ds
         else if - 6 < n \<and> n \<le> 0 then ''0.'' @ replicate (nat (- n)) (CHR ''0'') @ ds
         else let e = n - 1;
                  es = (if e < 0 then ''-'' else ''+'') @ digits10 (nat \<bar>e\<bar>)
              in if k = 1 then ds @ ''e'' @ es
                 else take 1 ds @ ''.'' @ drop 1 ds @ ''e'' @ es)"

definition pos_to_string :: "rat \<Rightarrow> string" where
  "pos_to_string x =
     (let n0 = ilog 10 x + 1;
          (s, k) = shortest x n0 1 17;
          ds = digits10 (nat s);
          n = n0 + (int (length ds) - int k)
      in layout (strip_zeros ds) n)"

fun number_to_string :: "jsnum \<Rightarrow> string" where
  "number_to_string NaN = ''NaN''"
| "number_to_string PosInf = ''Infinity''"
| "number_to_string NegInf = ''-Infinity''"
| "number_to_string (Fin x) =
     (if x = 0 then ''0'' else if x < 0 then ''-'' @ pos_to_string (- x) else pos_to_string x)"

text \<open>
  \<^verbatim>\<open>x.toFixed(f)\<close>: the integer \<open>n\<close> with \<open>n / 10 ^ f\<close> nearest to the exact value of \<open>x\<close>,
  the larger one at a tie, written with \<open>f\<close> digits after the point; from \<open>10 ^ 21\<close> on,
  and for NaN and the infinities, the plain number string.
\<close>

fun toFixed :: "jsnum \<Rightarrow> nat \<Rightarrow> string" where
  "toFixed (Fin x) f =
     (let sgn = (if x < 0 then ''-'' else []); a = \<bar>x\<bar>
      in if 10 ^ 21 \<le> a then sgn @ pos_to_string a
         else let m = digits10 (nat \<lfloor>a * 10 ^ f + 1 / 2\<rfloor>);
                  m' = replicate (Suc f - length m) (CHR ''0'') @ m
              in if f = 0 then sgn @ m
                 else sgn @ take (length m' - f) m' @ ''.'' @ drop (length m' - f) m')"
| "toFixed x f = number_to_string x"

text \<open>ToString on a primitive: what a template literal does to an interpolated value.\<close>

fun to_string :: "jsval \<Rightarrow> string" where
  "to_string JUndefined = ''undefined''"
| "to_string JNull = ''null''"
| "to_string (JBool b) = (if b then ''true'' else ''false'')"
| "to_string (JNum x) = number_to_string (Fin x)"
| "to_string (JStr s) = s"

section \<open>Device records and the health rules\<close>

text \<open>
  The fields of a device record that the service reads. The same eight fields are copied
  into every unhealthy record; a raw record also has \<^verbatim>\<open>vars\<close>, which is \<open>None\<close> when it is
  not an object (so that \<^verbatim>\<open>r.vars?.dsl_managed\<close> is \<^verbatim>\<open>undefined\<close>) and the object's
  properties otherwise.
\<close>

record route_fields =
  id' :: jsval
  name :: jsval
  phone_number :: jsval
  country :: jsval
  app_version :: jsval
  battery :: jsval
  charging :: jsval
  last_active_time :: jsval

record route = route_fields +
  vars :: "(string \<times> jsval) list option"

record unhealthy_route = route_fields +
  issues :: "string list"

definition CRITICAL_BATTERY_THRESHOLD :: rat where
  "CRITICAL_BATTERY_THRESHOLD = 20"

definition WARNING_BATTERY_THRESHOLD :: rat where
  "WARNING_BATTERY_THRESHOLD = 30"

text \<open>
  The body of the loop over the routes, the same text in the HTTP function and in the
  one-shot script. First the last-active check: what it pushes onto the empty
  \<^verbatim>\<open>issues\<close> array.
\<close>

definition staleness_issues :: "route \<Rightarrow> int \<Rightarrow> string list" where
  "staleness_issues r now =
     (if \<not> truthy (last_active_time r) then [''Never reported active'']
      else let lastActiveMs = js_mul (to_number (last_active_time r)) (Fin 1000);
               minutesAgo = js_div (js_sub (Fin (of_int now)) lastActiveMs) (Fin 60000)
           in if js_gt minutesAgo (Fin 1)
              then [''Last active '' @ toFixed minutesAgo 1 @ '' minutes ago'']
              else [])"

text \<open>Then the battery checks: the two template literals, and what the checks push.\<close>

definition critical_battery_issue :: "rat \<Rightarrow> string" where
  "critical_battery_issue b = ''Critical battery level ('' @ to_string (JNum b) @ ''%)''"

definition low_battery_issue :: "rat \<Rightarrow> string" where
  "low_battery_issue b = ''Battery low and not charging ('' @ to_string (JNum b) @ ''%)''"

definition battery_issues :: "route \<Rightarrow> string list" where
  "battery_issues r =
     (case battery r of
        JNum b \<Rightarrow>
          if js_lt (Fin b) (Fin CRITICAL_BATTERY_THRESHOLD) then [critical_battery_issue b]
          else if js_lt (Fin b) (Fin WARNING_BATTERY_THRESHOLD) \<and> charging r = JBool False
          then [low_battery_issue b]
          else []
      | _ \<Rightarrow> [])"

definition route_issues :: "route \<Rightarrow> int \<Rightarrow> string list" where
  "route_issues r now = staleness_issues r now @ battery_issues r"

text \<open>The object pushed onto \<^verbatim>\<open>unhealthyRoutes\<close> for a route with issues.\<close>

definition unhealthy_of :: "route \<Rightarrow> string list \<Rightarrow> unhealthy_route" where
  "unhealthy_of r iss =
     \<lparr> id' = id' r, name = name r, phone_number = phone_number r, country = country r,
       app_version = app_version r, battery = battery r, charging = charging r,
       last_active_time = last_active_time r, issues = iss \<rparr>"

primrec find_unhealthy :: "route list \<Rightarrow> int \<Rightarrow> unhealthy_route list" where
  "find_unhealthy [] now = []"
| "find_unhealthy (r # rs) now =
     (let iss = route_issues r now
      in if 0 < length iss then unhealthy_of r iss # find_unhealthy rs now
         else find_unhealthy rs now)"

section \<open>The world outside and the effects of a run\<close>

text \<open>
  A value caught by \<^verbatim>\<open>catch (err)\<close>: the object that axios, the database client or the chat
  client rejects with, or the engine's TypeError. It has an optional \<^verbatim>\<open>response\<close> (its
  \<^verbatim>\<open>status\<close> and \<^verbatim>\<open>data\<close>) and a \<^verbatim>\<open>message\<close> (empty when it has none).
\<close>

datatype thrown = Failure "(jsval \<times> jsval) option" string

datatype level = Log | Warn | Error

datatype console_arg =
    Str string
  | Obj "(string \<times> jsval) list"
  | Caught thrown
  | Pretty "unhealthy_route list"  \<comment> \<open>\<^verbatim>\<open>JSON.stringify(unhealthyRoutes, null, 2)\<close>, by its argument\<close>

text \<open>Everything a run does to the outside, in order.\<close>

datatype event =
    Console level "console_arg list"
  | HttpGet string jsval             \<comment> \<open>URL and basic-auth user name\<close>
  | PoolConnect
  | ClientQuery "jsval list"         \<comment> \<open>the INSERT with its ten values\<close>
  | ClientRelease
  | SlackPost jsval string           \<comment> \<open>channel and text\<close>
  | ProcessExit nat

text \<open>
  What \<^verbatim>\<open>response.data\<close> can be: \<^verbatim>\<open>undefined\<close> or \<^verbatim>\<open>null\<close> (\<open>NoBody\<close> with that word), so
  that reading its \<^verbatim>\<open>data\<close> throws a TypeError, or something whose \<^verbatim>\<open>data\<close> is an array of
  device records (\<open>Some\<close>) or is not an array (\<open>None\<close>).
\<close>

datatype response_data = NoBody string | Body "route list option"

definition TypeError_data :: "string \<Rightarrow> thrown" where
  "TypeError_data which =
     Failure None (''Cannot read properties of '' @ which @ '' (reading '' @ [CHR 0x27] @ ''data''
                   @ [CHR 0x27] @ '')'')"

text \<open>
  The environment of one run: the process environment, the answers of the gateway, the
  database and the chat service, the random UUIDs in the order they are drawn, the clock,
  and the own properties of the owner table \<^verbatim>\<open>routeOwners.json\<close> (a file of the repository
  that is not among the sources, hence a parameter): device names with their target
  identifiers, which are JSON primitives.
\<close>

record world =
  API_KEY :: "string option"
  PROJECT_ID :: "string option"
  SLACK_BOT_TOKEN :: "string option"
  SLACK_CHANNEL_ID :: "string option"
  axios_get :: "string \<Rightarrow> thrown + response_data"
  pool_connect :: "thrown option"
  client_query :: "nat \<Rightarrow> jsval list \<Rightarrow> thrown option"
  chat_postMessage :: "jsval \<Rightarrow> string \<Rightarrow> thrown option"
  randomUUID :: "nat \<Rightarrow> string"
  Date_now :: int
  routeOwners :: "string \<rightharpoonup> jsval"

record state =
  trace :: "event list"        \<comment> \<open>the events so far, oldest first\<close>
  table :: "jsval list list"   \<comment> \<open>the rows of \<^verbatim>\<open>unhealthy_routes_log\<close>\<close>
  drawn :: nat                 \<comment> \<open>how many UUIDs have been drawn\<close>

definition env :: "string option \<Rightarrow> jsval" where
  "env v = (case v of None \<Rightarrow> JUndefined | Some s \<Rightarrow> JStr s)"

definition emit :: "event \<Rightarrow> state \<Rightarrow> state" where
  "emit e s = s\<lparr>trace := trace s @ [e]\<rparr>"

definition console_log :: "string \<Rightarrow> state \<Rightarrow> state" where
  "console_log line s = emit (Console Log [Str line]) s"

definition crypto_randomUUID :: "world \<Rightarrow> state \<Rightarrow> string \<times> state" where
  "crypto_randomUUID w s = (randomUUID w (drawn s), s\<lparr>drawn := Suc (drawn s)\<rparr>)"

definition typeof :: "jsval \<Rightarrow> string" where
  "typeof v =
     (case v of
        JUndefined \<Rightarrow> ''undefined''
      | JNull \<Rightarrow> ''object''
      | JBool _ \<Rightarrow> ''boolean''
      | JNum _ \<Rightarrow> ''number''
      | JStr _ \<Rightarrow> ''string'')"

text \<open>\<^verbatim>\<open>Array.prototype.join\<close> on an array of strings.\<close>

fun join :: "string \<Rightarrow> string list \<Rightarrow> string" where
  "join sep [] = []"
| "join sep [x] = x"
| "join sep (x # y # ys) = x @ sep @ join sep (y # ys)"

text \<open>\<^verbatim>\<open>JSON.stringify\<close> on an array of strings.\<close>

definition json_quote_char :: "char \<Rightarrow> string" where
  "json_quote_char c =
     (let n = of_char c :: nat
      in if n = 0x22 then [CHR 0x5C, CHR 0x22]
         else if n = 0x5C then [CHR 0x5C, CHR 0x5C]
         else if n = 0x08 then [CHR 0x5C, CHR ''b'']
         else if n = 0x0C then [CHR 0x5C, CHR ''f'']
         else if n = 0x0A then [CHR 0x5C, CHR ''n'']
         else if n = 0x0D then [CHR 0x5C, CHR ''r'']
         else if n = 0x09 then [CHR 0x5C, CHR ''t'']
         else if n < 0x20
           then [CHR 0x5C, CHR ''u'', CHR ''0'', CHR ''0'', digit_char (n div 16), digit_char (n mod 16)]
         else [c])"

definition json_quote :: "string \<Rightarrow> string" where
  "json_quote s = [CHR 0x22] @ concat (map json_quote_char s) @ [CHR 0x22]"

definition json_stringify :: "string list \<Rightarrow> string" where
  "json_stringify xs = ''['' @ join '','' (map json_quote xs) @ '']''"

section \<open>The HTTP function\<close>

subsection \<open>logError\<close>

text \<open>A caught value is an object, hence truthy: the \<^verbatim>\<open>!error\<close> branch has no case.\<close>

definition logError_args :: "string \<Rightarrow> thrown \<Rightarrow> console_arg list" where
  "logError_args context error =
     (case error of
        Failure (Some (st, d)) msg \<Rightarrow>
          [Str (''['' @ context @ ''] Request failed''), Obj [(''status'', st), (''data'', d)]]
      | Failure None msg \<Rightarrow>
          [Str (''['' @ context @ '']''), if msg \<noteq> [] then Str msg else Caught error])"

definition logError :: "string \<Rightarrow> thrown \<Rightarrow> state \<Rightarrow> state" where
  "logError context error s = emit (Console Error (logError_args context error)) s"

subsection \<open>storeUnhealthyRoutes\<close>

text \<open>The ten values of one INSERT.\<close>

definition row_values :: "string \<Rightarrow> jsval \<Rightarrow> unhealthy_route \<Rightarrow> jsval list" where
  "row_values runId safeRouteId r =
     [JStr runId,
      safeRouteId,
      js_or (name r) JNull,
      js_or (phone_number r) JNull,
      js_or (country r) JNull,
      js_or (app_version r) JNull,
      if typeof (battery r) = ''number'' then battery r else JNull,
      if typeof (charging r) = ''boolean'' then charging r else JNull,
      if typeof (last_active_time r) = ''number'' then last_active_time r else JNull,
      JStr (json_stringify (issues r))]"

text \<open>
  One turn of the loop over the records; \<open>k\<close> counts the queries sent on the client. A
  query that succeeds adds its row to the table; one that fails is logged and the loop
  goes on.
\<close>

definition insert_route :: "world \<Rightarrow> string \<Rightarrow> nat \<Rightarrow> unhealthy_route \<Rightarrow> state \<Rightarrow> state" where
  "insert_route w runId k r s =
     (let (safeRouteId, s1) =
            (if nullish (id' r)
             then (let (u, s') = crypto_randomUUID w s in (JStr (''unknown-'' @ u), s'))
             else (id' r, s));
          vals = row_values runId safeRouteId r;
          s2 = emit (ClientQuery vals) s1
      in case client_query w k vals of
           None \<Rightarrow> s2\<lparr>table := table s2 @ [vals]\<rparr>
         | Some err \<Rightarrow> logError ''DB Insert Error (single route)'' err s2)"

fun insert_routes :: "world \<Rightarrow> string \<Rightarrow> nat \<Rightarrow> unhealthy_route list \<Rightarrow> state \<Rightarrow> state" where
  "insert_routes w runId k [] s = s"
| "insert_routes w runId k (r # rs) s = insert_routes w runId (Suc k) rs (insert_route w runId k r s)"

text \<open>
  The result is \<open>Some err\<close> when the promise rejects. \<^verbatim>\<open>pool.connect()\<close> stands before the
  \<^verbatim>\<open>try\<close>, so its failure rejects the call. Inside the \<^verbatim>\<open>try\<close> nothing throws past the inner
  \<^verbatim>\<open>catch\<close> (the records are objects built by the classifier, and \<^verbatim>\<open>release\<close> does not throw),
  so the outer \<^verbatim>\<open>catch\<close> has no branch here; the \<^verbatim>\<open>finally\<close> releases the client.
\<close>

definition storeUnhealthyRoutes ::
    "world \<Rightarrow> unhealthy_route list \<Rightarrow> string \<Rightarrow> state \<Rightarrow> thrown option \<times> state" where
  "storeUnhealthyRoutes w unhealthyRoutes runId s =
     (if length unhealthyRoutes = 0 then (None, s)
      else let s1 = emit PoolConnect s
           in case pool_connect w of
                Some err \<Rightarrow> (Some err, s1)
              | None \<Rightarrow>
                  let s2 = insert_routes w runId 0 unhealthyRoutes s1
                  in (None, emit ClientRelease s2))"

subsection \<open>sendSlackAlert\<close>

definition em_dash :: string where
  "em_dash = [CHR 0xE2, CHR 0x80, CHR 0x94]"

definition bullet :: string where
  "bullet = [CHR 0xE2, CHR 0x80, CHR 0xA2]"

definition newline :: string where
  "newline = [CHR 0x0A]"

text \<open>
  What reading a property of the owner table can give: a value of the file, or something
  the table inherits as every object does, a built-in function (by its name) or, under
  \<^verbatim>\<open>__proto__\<close>, the prototype object itself. The inherited ones are objects, hence truthy;
  in a template literal a built-in function reads \<^verbatim>\<open>function f() { [native code] }\<close> and the
  prototype \<^verbatim>\<open>[object Object]\<close>.
\<close>

datatype property = Own jsval | Native string | Prototype

fun property_truthy :: "property \<Rightarrow> bool" where
  "property_truthy (Own v) = truthy v"
| "property_truthy (Native f) = True"
| "property_truthy Prototype = True"

fun property_to_string :: "property \<Rightarrow> string" where
  "property_to_string (Own v) = to_string v"
| "property_to_string (Native f) = ''function '' @ f @ ''() { [native code] }''"
| "property_to_string Prototype = ''[object Object]''"

text \<open>The properties of \<^verbatim>\<open>Object.prototype\<close>.\<close>

definition inherited_names :: "string list" where
  "inherited_names =
     [''constructor'', ''__defineGetter__'', ''__defineSetter__'', ''hasOwnProperty'',
      ''__lookupGetter__'', ''__lookupSetter__'', ''isPrototypeOf'', ''propertyIsEnumerable'',
      ''toString'', ''valueOf'', ''__proto__'', ''toLocaleString'']"

definition Object_prototype :: "string \<Rightarrow> property" where
  "Object_prototype key =
     (if key = ''constructor'' then Native ''Object''
      else if key = ''__proto__'' then Prototype
      else if key \<in> set inherited_names then Native key
      else Own JUndefined)"

text \<open>
  \<^verbatim>\<open>routeOwners[r.name]\<close>: the property whose key is the name as a string, the table's own
  if it has one, else the inherited one.
\<close>

definition owner_lookup :: "world \<Rightarrow> jsval \<Rightarrow> property" where
  "owner_lookup w key =
     (case routeOwners w (to_string key) of
        Some v \<Rightarrow> Own v
      | None \<Rightarrow> Object_prototype (to_string key))"

definition alert_line :: "world \<Rightarrow> unhealthy_route \<Rightarrow> string" where
  "alert_line w r =
     (let slackId = owner_lookup w (name r);
          mention = (if property_truthy slackId
                     then ''<@'' @ property_to_string slackId @ ''> '' else [])
      in bullet @ '' '' @ mention @ to_string (js_or (name r) (id' r))
         @ '' ('' @ to_string (js_or (phone_number r) (JStr ''unknown'')) @ ''): ''
         @ join '', '' (issues r))"

definition alert_text :: "world \<Rightarrow> unhealthy_route list \<Rightarrow> string \<Rightarrow> string" where
  "alert_text w unhealthyRoutes runId =
     (let header = ''DSL Route Health Check '' @ em_dash @ '' run_id: '' @ runId @ newline
                   @ ''Unhealthy routes detected:'' @ newline;
          body = join newline (map (alert_line w) unhealthyRoutes)
      in header @ body)"

text \<open>
  \<^verbatim>\<open>slackClient\<close> is an object, hence truthy: the guard tests the channel id alone. With
  primitive fields no template literal throws, so the call always resolves.
\<close>

definition sendSlackAlert :: "world \<Rightarrow> unhealthy_route list \<Rightarrow> string \<Rightarrow> state \<Rightarrow> state" where
  "sendSlackAlert w unhealthyRoutes runId s =
     (if \<not> truthy (env (SLACK_CHANNEL_ID w))
      then emit (Console Warn [Str ''Slack not configured - skipping Slack alert'']) s
      else let messageText = alert_text w unhealthyRoutes runId;
               s1 = emit (SlackPost (env (SLACK_CHANNEL_ID w)) messageText) s
           in case chat_postMessage w (env (SLACK_CHANNEL_ID w)) messageText of
                None \<Rightarrow> console_log ''Slack alert sent successfully.'' s1
              | Some err \<Rightarrow> logError ''Slack Notification Error'' err s1)"

subsection \<open>monitorDSLRoutes\<close>

datatype body_val = BStr string | BNum nat | BRoutes "unhealthy_route list"

record http_response =
  status :: nat
  body :: "(string \<times> body_val) list"

text \<open>\<^verbatim>\<open>r.vars?.dsl_managed\<close>.\<close>

definition dsl_managed :: "route \<Rightarrow> jsval" where
  "dsl_managed r =
     (case vars r of
        None \<Rightarrow> JUndefined
      | Some props \<Rightarrow> (case map_of props ''dsl_managed'' of None \<Rightarrow> JUndefined | Some v \<Rightarrow> v))"

definition banner :: string where
  "banner = replicate 36 (CHR ''='')"

definition phones_url :: "jsval \<Rightarrow> string" where
  "phones_url project = ''https://api.telerivet.com/v1/projects/'' @ to_string project @ ''/phones''"

definition count_string :: "nat \<Rightarrow> string" where
  "count_string n = to_string (JNum (of_nat n))"

text \<open>
  The two \<^verbatim>\<open>try\<close> blocks of the handler, one after the other: the persister, whose
  rejection is caught and logged, then the notifier (which cannot reject here, so its
  \<^verbatim>\<open>catch\<close> has no branch).
\<close>

definition persist_and_notify :: "world \<Rightarrow> unhealthy_route list \<Rightarrow> string \<Rightarrow> state \<Rightarrow> state" where
  "persist_and_notify w unhealthyRoutes runId s =
     (let s1 = (case storeUnhealthyRoutes w unhealthyRoutes runId s of
                  (None, s') \<Rightarrow> s'
                | (Some err, s') \<Rightarrow> logError ''storeUnhealthyRoutes failed'' err s')
      in sendSlackAlert w unhealthyRoutes runId s1)"

text \<open>
  The handler, with the response it sends. The outer \<^verbatim>\<open>catch\<close> answers 500; here only
  the TypeError of a missing response body reaches it.
\<close>

definition monitorDSLRoutes :: "world \<Rightarrow> state \<Rightarrow> http_response \<times> state" where
  "monitorDSLRoutes w s =
     (let url = phones_url (env (PROJECT_ID w));
          (runId, s0) = crypto_randomUUID w s;
          s1 = console_log (newline @ banner) s0;
          s2 = console_log (''Run ID '' @ runId @ '' started'') s1;
          s3 = console_log banner s2;
          s4 = console_log (''Calling Telerivet API: '' @ url) s3;
          s5 = emit (HttpGet url (env (API_KEY w))) s4
      in case axios_get w url of
           Inl err \<Rightarrow>
             (\<lparr>status = 502, body = [(''error'', BStr ''Failed to fetch Telerivet routes'')]\<rparr>,
              logError ''Telerivet API Error'' err s5)
         | Inr (NoBody which) \<Rightarrow>
             (\<lparr>status = 500, body = [(''error'', BStr ''Unexpected server error'')]\<rparr>,
              logError ''Unexpected Error'' (TypeError_data which) s5)
         | Inr (Body d) \<Rightarrow>
             let allRoutes = (case d of Some rs \<Rightarrow> rs | None \<Rightarrow> []);
                 routes = filter (\<lambda>r. dsl_managed r = JBool True) allRoutes;
                 s6 = console_log (''Total DSL routes found: '' @ count_string (length routes)) s5;
                 now = Date_now w;
                 unhealthyRoutes = find_unhealthy routes now;
                 s7 = console_log (''Route health summary for run ID: '' @ runId) s6
             in if length unhealthyRoutes = 0
                then (\<lparr>status = 200,
                       body = [(''status'', BStr ''ok''),
                               (''total_routes'', BNum (length routes)),
                               (''unhealthy_count'', BNum 0)]\<rparr>,
                      console_log ''All routes are healthy.'' s7)
                else let s8 = console_log (''Unhealthy routes: ''
                                           @ count_string (length unhealthyRoutes)) s7;
                         s9 = emit (Console Log [Pretty unhealthyRoutes]) s8;
                         s10 = persist_and_notify w unhealthyRoutes runId s9
                     in (\<lparr>status = 200,
                          body = [(''status'', BStr ''ok''),
                                  (''run_id'', BStr runId),
                                  (''total_routes'', BNum (length routes)),
                                  (''unhealthy_count'', BNum (length unhealthyRoutes)),
                                  (''unhealthy_routes'', BRoutes unhealthyRoutes)]\<rparr>,
                         s10))"

section \<open>The one-shot script\<close>

text \<open>Its \<^verbatim>\<open>logError\<close> has no guard for a falsy value; on objects it is the same.\<close>

definition dev_logError_args :: "string \<Rightarrow> thrown \<Rightarrow> console_arg list" where
  "dev_logError_args context error =
     (case error of
        Failure (Some (st, d)) msg \<Rightarrow>
          [Str (''['' @ context @ ''] Request failed''), Obj [(''status'', st), (''data'', d)]]
      | Failure None msg \<Rightarrow>
          [Str (''['' @ context @ '']''), if msg \<noteq> [] then Str msg else Caught error])"

definition dev_logError :: "string \<Rightarrow> thrown \<Rightarrow> state \<Rightarrow> state" where
  "dev_logError context error s = emit (Console Error (dev_logError_args context error)) s"

definition dev_alert_line :: "unhealthy_route \<Rightarrow> string" where
  "dev_alert_line r =
     bullet @ '' '' @ to_string (name r) @ '' ('' @ to_string (phone_number r) @ ''): ''
     @ join '', '' (issues r)"

definition dev_sendSlackAlert :: "world \<Rightarrow> unhealthy_route list \<Rightarrow> state \<Rightarrow> state" where
  "dev_sendSlackAlert w unhealthyRoutes s =
     (let messageText = ''DSL Route Health Check'' @ newline @ ''Unhealthy routes detected:''
                        @ newline @ join newline (map dev_alert_line unhealthyRoutes);
          s1 = emit (SlackPost (env (SLACK_CHANNEL_ID w)) messageText) s
      in case chat_postMessage w (env (SLACK_CHANNEL_ID w)) messageText of
           None \<Rightarrow> console_log ''Slack alert sent successfully.'' s1
         | Some err \<Rightarrow> dev_logError ''Slack Notification Error'' err s1)"

text \<open>
  \<^verbatim>\<open>process.exit(1)\<close> ends the process on the spot. Every route the gateway returns is
  classified: the script has no \<^verbatim>\<open>dsl_managed\<close> filter, no run id and no database.
\<close>

definition testTelerivetRoutes :: "world \<Rightarrow> state \<Rightarrow> state" where
  "testTelerivetRoutes w s =
     (let apiKey = env (API_KEY w); projectId = env (PROJECT_ID w)
      in if \<not> truthy apiKey \<or> \<not> truthy projectId
         then emit (ProcessExit 1)
                (emit (Console Error
                   [Str ''Missing TELERIVET_API_KEY or TELERIVET_PROJECT_ID environment variables.'']) s)
         else let url = phones_url projectId;
                  s1 = console_log (''Calling Telerivet API: '' @ url) s;
                  s2 = emit (HttpGet url apiKey) s1
              in case axios_get w url of
                   Inl err \<Rightarrow> dev_logError ''Telerivet API Error'' err s2
                 | Inr (NoBody which) \<Rightarrow> dev_logError ''Unexpected Error'' (TypeError_data which) s2
                 | Inr (Body d) \<Rightarrow>
                     let routes = (case d of Some rs \<Rightarrow> rs | None \<Rightarrow> []);
                         s3 = console_log (''Total routes found: '' @ count_string (length routes)) s2;
                         now = Date_now w;
                         unhealthyRoutes = find_unhealthy routes now;
                         s4 = console_log (newline @ banner) s3;
                         s5 = console_log ''ROUTE HEALTH SUMMARY'' s4;
                         s6 = console_log banner s5
                     in if length unhealthyRoutes = 0
                        then console_log ''All routes are healthy.'' s6
                        else let s7 = console_log (''Unhealthy routes: ''
                                                   @ count_string (length unhealthyRoutes)) s6;
                                 s8 = emit (Console Log [Pretty unhealthyRoutes]) s7
                             in dev_sendSlackAlert w unhealthyRoutes s8)"

section \<open>Reading a trace\<close>

fun is_console :: "event \<Rightarrow> bool" where
  "is_console (Console l args) = True"
| "is_console e = False"

fun is_error_log :: "event \<Rightarrow> bool" where
  "is_error_log (Console Error args) = True"
| "is_error_log e = False"

fun is_query :: "event \<Rightarrow> bool" where
  "is_query (ClientQuery vals) = True"
| "is_query e = False"

fun touches_database :: "event \<Rightarrow> bool" where
  "touches_database PoolConnect = True"
| "touches_database (ClientQuery vals) = True"
| "touches_database ClientRelease = True"
| "touches_database e = False"

fun is_slack_post :: "event \<Rightarrow> bool" where
  "is_slack_post (SlackPost channel text) = True"
| "is_slack_post e = False"

fun is_http_get :: "event \<Rightarrow> bool" where
  "is_http_get (HttpGet url user) = True"
| "is_http_get e = False"

fun is_exit :: "event \<Rightarrow> bool" where
  "is_exit (ProcessExit code) = True"
| "is_exit e = False"

text \<open>The value lists of the queries in a trace, in order.\<close>

fun queries_of :: "event list \<Rightarrow> jsval list list" where
  "queries_of [] = []"
| "queries_of (ClientQuery vals # es) = vals # queries_of es"
| "queries_of (e # es) = queries_of es"

text \<open>
  The rows of a batch, read off the loop: the row of one record when \<open>d\<close> UUIDs have been
  drawn, and the rows of the records in order, each placeholder taking the next UUID.
\<close>

definition route_row :: "world \<Rightarrow> string \<Rightarrow> nat \<Rightarrow> unhealthy_route \<Rightarrow> jsval list" where
  "route_row w runId d r =
     row_values runId
       (if nullish (id' r) then JStr (''unknown-'' @ randomUUID w d) else id' r) r"

fun batch_rows :: "world \<Rightarrow> string \<Rightarrow> nat \<Rightarrow> unhealthy_route list \<Rightarrow> jsval list list" where
  "batch_rows w runId d [] = []"
| "batch_rows w runId d (r # rs) =
     route_row w runId d r # batch_rows w runId (if nullish (id' r) then Suc d else d) rs"

section \<open>Example inputs\<close>

text \<open>A managed device with the given battery, charging flag and last-active time.\<close>

definition example_route :: "jsval \<Rightarrow> jsval \<Rightarrow> jsval \<Rightarrow> route" where
  "example_route b c t =
     \<lparr> id' = JStr ''PN1'', name = JStr ''Router-A'', phone_number = JStr ''+15550100'',
       country = JStr ''US'', app_version = JStr ''7.1'', battery = b, charging = c,
       last_active_time = t, vars = Some [(''dsl_managed'', JBool True)] \<rparr>"

text \<open>Unhealthy records: one with a name, an id and a phone number, one with none.\<close>

definition example_unhealthy :: "jsval \<Rightarrow> jsval \<Rightarrow> jsval \<Rightarrow> unhealthy_route" where
  "example_unhealthy i n p =
     \<lparr> id' = i, name = n, phone_number = p, country = JStr ''US'', app_version = JNull,
       battery = JNum 15, charging = JBool True, last_active_time = JNum 1700000000,
       issues = [''Last active 5.0 minutes ago'', ''Critical battery level (15%)''] \<rparr>"

text \<open>
  A world whose gateway answers with the given body, whose database accepts every insert
  but the one numbered \<open>m\<close>, and whose chat service accepts every message.
\<close>

definition example_world :: "thrown + response_data \<Rightarrow> nat \<Rightarrow> world" where
  "example_world answer m =
     \<lparr> API_KEY = Some ''key'', PROJECT_ID = Some ''PJ1'', SLACK_BOT_TOKEN = Some ''xoxb-1'',
       SLACK_CHANNEL_ID = Some ''C042'',
       axios_get = (\<lambda>url. answer),
       pool_connect = None,
       client_query = (\<lambda>k vals. if k = m then Some (Failure None ''value too long'') else None),
       chat_postMessage = (\<lambda>channel text. None),
       randomUUID = (\<lambda>k. ''uuid-'' @ digits10 k),
       Date_now = 1700000000000,
       routeOwners = [''Router-A'' \<mapsto> JStr ''U123''] \<rparr>"

definition empty_state :: state where
  "empty_state = \<lparr> trace = [], table = [], drawn = 0 \<rparr>"

text \<open>A batch of three unhealthy records; the second has no id.\<close>

definition example_batch :: "unhealthy_route list" where
  "example_batch =
     [example_unhealthy (JStr ''PN1'') (JStr ''Router-A'') (JStr ''+15550100''),
      example_unhealthy JNull (JStr ''Router-Z'') JUndefined,
      example_unhealthy (JStr ''PN3'') JUndefined (JStr ''+15550102'')]"

text \<open>The world of the examples, with a database that refuses the connection.\<close>

definition example_world_no_db :: world where
  "example_world_no_db =
     (example_world (Inr (Body None)) 0)\<lparr>pool_connect := Some (Failure None ''connect ECONNREFUSED'')\<rparr>"





text \<open>A gateway answer with one managed device that is healthy at the clock of the examples.\<close>

definition example_healthy_answer :: "thrown + response_data" where
  "example_healthy_answer = Inr (Body (Some [example_route (JNum 80) (JBool False) (JNum 1700000000)]))"

text \<open>The same with a battery at 15 percent.\<close>

definition example_unhealthy_answer :: "thrown + response_data" where
  "example_unhealthy_answer = Inr (Body (Some [example_route (JNum 15) (JBool True) (JNum 1700000000)]))"

text \<open>A device with a battery at 15 percent that is not marked as managed.\<close>

definition example_unmanaged :: route where
  "example_unmanaged =
     \<lparr> id' = JStr ''PN9'', name = JStr ''Router-B'', phone_number = JStr ''+15550109'',
       country = JStr ''US'', app_version = JStr ''7.1'', battery = JNum 15, charging = JBool True,
       last_active_time = JNum 1700000000, vars = None \<rparr>"

section \<open>Properties of the number functions\<close>

lemma pos_to_string_15: "pos_to_string 15 = ''15''"
  by code_simp


lemma toFixed_2: "toFixed (Fin 2) 1 = ''2.0''"
  by code_simp

text \<open>An integer below \<open>2 ^ 53\<close> in magnitude is a double: rounding leaves it as it is.\<close>

lemma digit_count_bound: "n < 2 ^ k \<Longrightarrow> digit_count 2 n \<le> k"
proof (induction k arbitrary: n)
  case 0
  then show ?case by (simp add: digit_count.simps)
next
  case (Suc k)
  then have "n div 2 < 2 ^ k" by simp
  then have "digit_count 2 (n div 2) \<le> k" by (rule Suc.IH)
  then show ?case by (subst digit_count.simps) simp
qed

lemma digit_count_pos: "0 < n \<Longrightarrow> 0 < digit_count 2 n"
  by (subst digit_count.simps) simp

lemma round_half_even_int: "round_half_even (of_int k) = k"
  by (simp add: round_half_even_def)

lemma fl_of_nat:
  assumes "0 < m" and "m < 2 ^ 53"
  shows "fl (of_nat m) = Fin (of_nat m)" and "fl (- of_nat m) = Fin (- of_nat m)"
proof -
  define L where "L = digit_count 2 m"
  have L: "0 < L" "L \<le> 53"
    using assms digit_count_pos digit_count_bound by (auto simp: L_def)
  have il: "ilog 2 (of_nat m) = int L - 1"
    using assms by (simp add: ilog_def L_def)
  have q: "pow_int 2 (int L - 53) = 1 / 2 ^ (53 - L)"
  proof (cases "L = 53")
    case True
    then show ?thesis by (simp add: pow_int_def)
  next
    case False
    with L have "L < 53" by simp
    then have "nat (53 - int L) = 53 - L" by simp
    with \<open>L < 53\<close> show ?thesis by (simp add: pow_int_def)
  qed
  have r: "round_half_even (of_nat m * 2 ^ (53 - L)) = int m * 2 ^ (53 - L)"
  proof -
    have "(of_nat m :: rat) * 2 ^ (53 - L) = of_int (int m * 2 ^ (53 - L))" by simp
    then show ?thesis by (simp only: round_half_even_int)
  qed
  have n5: "\<not> 1024 < L" "L \<noteq> 1024" using L by simp_all
  show "fl (of_nat m) = Fin (of_nat m)"
    using assms(1) L by (simp add: fl_def Let_def il q r n5)
  show "fl (- of_nat m) = Fin (- of_nat m)"
    using assms(1) L by (simp add: fl_def Let_def il q r n5)
qed

lemma fl_of_int: "\<bar>n\<bar> < 2 ^ 53 \<Longrightarrow> fl (of_int n) = Fin (of_int n)"
proof (cases "n = 0")
  case True
  then show ?thesis by (simp add: fl_def)
next
  case False
  assume b: "\<bar>n\<bar> < 2 ^ 53"
  show ?thesis
  proof (cases "0 < n")
    case True
    then have "0 < nat n" "nat n < 2 ^ 53" using b by (auto simp: nat_less_iff)
    from fl_of_nat(1)[OF this] True show ?thesis by simp
  next
    case neg: False
    with False have "0 < nat (- n)" "nat (- n) < 2 ^ 53" using b by (auto simp: nat_less_iff)
    from fl_of_nat(2)[OF this] neg False show ?thesis by simp
  qed
qed

text \<open>The exponent that \<open>ilog\<close> finds brackets the value.\<close>

lemma pow_int_powi: "pow_int b k = b powi k"
  by (simp add: pow_int_def power_int_def field_simps)

lemma digit_count_bounds:
  "0 < n \<Longrightarrow> 2 ^ (digit_count 2 n - 1) \<le> n \<and> n < 2 ^ digit_count 2 n"
proof (induction n rule: less_induct)
  case (less n)
  have dc: "digit_count 2 n = Suc (digit_count 2 (n div 2))"
    using less.prems by (subst digit_count.simps) simp
  show ?case
  proof (cases "n div 2 = 0")
    case True
    with less.prems have "n = 1" by (simp add: div_eq_0_iff) 
    then show ?thesis by (simp add: dc digit_count.simps)
  next
    case False
    then have "0 < n div 2" "n div 2 < n" using less.prems by simp_all
    from less.IH[OF this(2) this(1)]
    have ih: "2 ^ (digit_count 2 (n div 2) - 1) \<le> n div 2" "n div 2 < 2 ^ digit_count 2 (n div 2)"
      by simp_all
    have pos: "0 < digit_count 2 (n div 2)" using \<open>0 < n div 2\<close> by (rule digit_count_pos)
    then obtain k where k: "digit_count 2 (n div 2) = Suc k" by (cases "digit_count 2 (n div 2)") auto
    have "2 ^ Suc k \<le> 2 * (n div 2)" using ih(1) k by simp
    then have lo: "2 ^ (digit_count 2 n - 1) \<le> n" by (simp add: dc k) 
    have "n < 2 * (n div 2) + 2" by presburger
    also have "\<dots> \<le> 2 * 2 ^ digit_count 2 (n div 2)" using ih(2) by simp
    finally have hi: "n < 2 ^ digit_count 2 n" by (simp add: dc)
    from lo hi show ?thesis ..
  qed
qed

lemma ilog2_bounds:
  assumes "0 < a"
  shows "2 powi (ilog 2 a) \<le> a \<and> a < 2 powi (ilog 2 a + 1)"
proof (cases "1 \<le> a")
    case True
    define n where "n = nat \<lfloor>a\<rfloor>"
    have n: "0 < n" "of_nat n \<le> a" "a < of_nat n + 1"
      using True by (simp_all add: n_def) linarith+
    define L where "L = digit_count 2 n"
    have L: "0 < L" "2 ^ (L - 1) \<le> n" "n < 2 ^ L"
      using digit_count_bounds[OF n(1)] digit_count_pos[OF n(1)] by (simp_all add: L_def)
    have il: "ilog 2 a = int L - 1" using True by (simp add: ilog_def n_def L_def)
    have e: "int L - 1 = int (L - 1)" using L(1) by simp
    have "(2::rat) ^ (L - 1) \<le> of_nat n"
      using of_nat_mono[OF L(2), where 'a = rat] by simp
    from this n(2) have "(2::rat) ^ (L - 1) \<le> a" by (rule order_trans)
    moreover have "2 powi (ilog 2 a) = (2::rat) ^ (L - 1)"
      unfolding il e by (rule power_int_of_nat)
    ultimately have lo: "2 powi (ilog 2 a) \<le> a" by simp
    have "n + 1 \<le> 2 ^ L" using L(3) by simp
    then have "(of_nat n :: rat) + 1 \<le> 2 ^ L"
      using of_nat_mono[of "n + 1" "2 ^ L", where 'a = rat] by simp
    with n(3) have "a < 2 ^ L" by (rule less_le_trans)
    moreover have "2 powi (ilog 2 a + 1) = (2::rat) ^ L"
      unfolding il using power_int_of_nat[of "2::rat" L] by simp
    ultimately have "a < 2 powi (ilog 2 a + 1)" by simp
    with lo show ?thesis ..
  next
    case False
    with assms have a: "0 < a" "a < 1" by simp_all
    define m where "m = nat \<lceil>1 / a\<rceil>"
    have inv: "1 < 1 / a" using a by simp
    have m: "1 / a \<le> of_nat m" "of_nat m - 1 < 1 / a" "2 \<le> m"
    proof -
      have "0 < \<lceil>1 / a\<rceil>" using inv by linarith
      then have c: "of_nat m = (of_int \<lceil>1 / a\<rceil> :: rat)" by (simp add: m_def)
      show "1 / a \<le> of_nat m" unfolding c by (rule le_of_int_ceiling)
      show "of_nat m - 1 < 1 / a" unfolding c by linarith
      have "2 \<le> \<lceil>1 / a\<rceil>" using inv by linarith
      then show "2 \<le> m" unfolding m_def by linarith
    qed
    define j where "j = digit_count 2 (m - 1)"
    have m1: "0 < m - 1" using m(3) by simp
    have j: "0 < j" "2 ^ (j - 1) \<le> m - 1" "m - 1 < 2 ^ j"
      using digit_count_bounds[OF m1] digit_count_pos[OF m1] by (simp_all add: j_def)
    have il: "ilog 2 a = - int j" using False by (simp add: ilog_def m_def j_def)
    have "m \<le> 2 ^ j" using j(3) by simp
    then have "(of_nat m :: rat) \<le> 2 ^ j"
      using of_nat_mono[of m "2 ^ j", where 'a = rat] by simp
    with m(1) have "1 / a \<le> 2 ^ j" by (rule order_trans)
    then have "1 / 2 ^ j \<le> a" using a(1) by (simp add: field_simps)
    then have lo: "2 powi (ilog 2 a) \<le> a"
      using j(1) by (simp add: il power_int_def field_simps)
    have "(2::rat) ^ (j - 1) \<le> of_nat (m - 1)"
      using of_nat_mono[OF j(2), where 'a = rat] by simp
    also have "\<dots> = of_nat m - 1" using m(3) by (simp add: of_nat_diff)
    also have "\<dots> < 1 / a" by (rule m(2))
    finally have "(2::rat) ^ (j - 1) < 1 / a" .
    then have lt: "a < 1 / 2 ^ (j - 1)" using a(1) by (simp add: field_simps)
    have "- int j + 1 = - int (j - 1)" using j(1) by simp
    then have "2 powi (ilog 2 a + 1) = (1::rat) / 2 ^ (j - 1)"
      by (simp add: il power_int_minus_divide del: of_nat_diff)
    with lt have "a < 2 powi (ilog 2 a + 1)" by simp
    with lo show ?thesis ..
qed

lemma round_half_even_lower: "r - 1 / 2 \<le> of_int (round_half_even r)"
proof -
  have "r < of_int \<lfloor>r\<rfloor> + 1" by linarith
  then show ?thesis by (auto simp: round_half_even_def Let_def)
qed

lemma round_half_even_upper: "r < of_int N \<Longrightarrow> round_half_even r \<le> N"
proof -
  assume "r < of_int N"
  then have "\<lfloor>r\<rfloor> < N" by (simp add: floor_less_iff)
  then show ?thesis by (auto simp: round_half_even_def Let_def)
qed

lemma round_half_even_nonneg: "0 \<le> r \<Longrightarrow> 0 \<le> round_half_even r"
proof -
  assume "0 \<le> r"
  then have "0 \<le> \<lfloor>r\<rfloor>" by simp
  then show ?thesis by (auto simp: round_half_even_def Let_def)
qed

text \<open>Rounding never carries a value at most 1 above 1.\<close>

lemma fl_le_one:
  assumes "x \<le> 1"
  shows "\<not> js_gt (fl x) (Fin 1)"
proof -
  consider "x = 0" | "x < 0" | "0 < x" "x < 1" | "x = 1" using assms by linarith
  then show ?thesis
  proof cases
    case 1
    then show ?thesis by (simp add: fl_def js_gt_def)
  next
    case 2
    define e where "e = max (ilog 2 \<bar>x\<bar>) (- 1022)"
    define q where "q = pow_int 2 (e - 52)"
    define n where "n = round_half_even (\<bar>x\<bar> / q)"
    have q: "0 < q" by (simp add: q_def pow_int_powi)
    then have "0 \<le> \<bar>x\<bar> / q" by simp
    then have "0 \<le> n" unfolding n_def by (rule round_half_even_nonneg)
    then have "0 \<le> of_int n * q" using q by simp
    moreover have "fl x = (if 1024 \<le> e \<or> (e = 1023 \<and> n = 2 ^ 53) then NegInf
                           else Fin (- (of_int n * q)))"
      using 2 by (auto simp: fl_def Let_def e_def q_def n_def inf_of_def)
    ultimately show ?thesis by (simp add: js_gt_def)
  next
    case 3
    define e0 where "e0 = ilog 2 x"
    define e where "e = max e0 (- 1022)"
    define q where "q = pow_int 2 (e - 52)"
    define n where "n = round_half_even (x / q)"
    have b: "2 powi e0 \<le> x" "x < 2 powi (e0 + 1)"
      using ilog2_bounds[OF 3(1)] by (simp_all add: e0_def)
    have "e0 < 0"
    proof (rule ccontr)
      assume "\<not> e0 < 0"
      then have "(1::rat) \<le> 2 powi e0" by simp
      with b(1) 3(2) show False by simp
    qed
    then have e: "e \<le> - 1" "e0 \<le> e" by (simp_all add: e_def)
    have q: "0 < q" "q = 2 powi (e - 52)" by (simp_all add: q_def pow_int_powi)
    have "x < 2 powi (e + 1)"
      using b(2) e(2) power_int_increasing[of "e0 + 1" "e + 1" "2::rat"] by simp
    also have "\<dots> = 2 ^ 53 * q"
      unfolding q(2) using power_int_add[of "2::rat" 53 "e - 52"] by (simp add: add.commute)
    finally have "x / q < 2 ^ 53" using q(1) by (simp add: field_simps)
    then have "x / q < of_int (2 ^ 53)" by simp
    then have n: "n \<le> 2 ^ 53" unfolding n_def by (rule round_half_even_upper)
    then have "(of_int n :: rat) \<le> of_int (2 ^ 53)" by (simp only: of_int_le_iff)
    then have "of_int n * q \<le> 2 ^ 53 * q" using q(1) by simp
    also have "\<dots> = 2 powi (e + 1)"
      unfolding q(2) using power_int_add[of "2::rat" 53 "e - 52"] by (simp add: add.commute)
    also have "\<dots> \<le> 2 powi 0"
      using e(1) by (intro power_int_increasing) simp_all
    finally have y: "of_int n * q \<le> 1" by simp
    have "fl x = Fin (of_int n * q)"
      using 3(1) e(1) by (simp add: fl_def Let_def e0_def[symmetric] e_def[symmetric]
          q_def[symmetric] n_def[symmetric])
    with y show ?thesis by (simp add: js_gt_def)
  next
    case 4
    have "fl (of_int 1) = Fin (of_int 1)" by (rule fl_of_int) simp
    with 4 show ?thesis by (simp add: js_gt_def)
  qed
qed

text \<open>Nor does it carry a value of at least \<open>60001 / 60000\<close> down to 1.\<close>

lemma fl_gt_one:
  assumes "60001 / 60000 \<le> x" and "x < 2 ^ 53"
  shows "js_gt (fl x) (Fin 1)"
proof -
  have x: "0 < x" "1 \<le> x" using assms(1) by simp_all
  define e0 where "e0 = ilog 2 x"
  define q where "q = pow_int 2 (e0 - 52)"
  define n where "n = round_half_even (x / q)"
  have b: "2 powi e0 \<le> x" "x < 2 powi (e0 + 1)"
    using ilog2_bounds[OF x(1)] by (simp_all add: e0_def)
  have lo: "0 \<le> e0"
  proof (rule ccontr)
    assume "\<not> 0 \<le> e0"
    then have "e0 + 1 \<le> 0" by simp
    then have "(2::rat) powi (e0 + 1) \<le> 2 powi 0" by (intro power_int_increasing) simp_all
    with b(2) x(2) show False by simp
  qed
  have hi: "e0 < 53"
  proof (rule ccontr)
    assume "\<not> e0 < 53"
    then have "(2::rat) powi 53 \<le> 2 powi e0" by (intro power_int_increasing) simp_all
    with b(1) assms(2) show False by simp
  qed
  have e: "max e0 (- 1022) = e0" using lo by simp
  have q: "0 < q" "q = 2 powi (e0 - 52)" by (simp_all add: q_def pow_int_powi)
  have "2 ^ 52 * q = 2 powi e0"
    unfolding q(2) using power_int_add[of "2::rat" 52 "e0 - 52"] by simp
  with b(1) have qx: "2 ^ 52 * q \<le> x" by simp
  have "x / q - 1 / 2 \<le> of_int n" unfolding n_def by (rule round_half_even_lower)
  then have "(x / q - 1 / 2) * q \<le> of_int n * q" using q(1) by simp
  moreover have "(x / q - 1 / 2) * q = x - q / 2" using q(1) by (simp add: field_simps)
  ultimately have "x - q / 2 \<le> of_int n * q" by simp
  moreover have "1 < x - q / 2" using qx assms(1) by simp
  ultimately have y: "1 < of_int n * q" by simp
  have "fl x = Fin (of_int n * q)"
    using x(1) lo hi by (simp add: fl_def Let_def e0_def[symmetric] e q_def[symmetric]
        n_def[symmetric])
  with y show ?thesis by (simp add: js_gt_def)
qed

lemma toFixed_2_Suc: "toFixed (Fin 2) (Suc 0) = ''2.0''"
  using toFixed_2 by (simp del: toFixed.simps)

lemma example_route_simps:
  "battery (example_route b c t) = b"
  "charging (example_route b c t) = c"
  "last_active_time (example_route b c t) = t"
  by (simp_all add: example_route_def)

section \<open>The battery rules\<close>





text \<open>
  C2, as stated, fails: a battery below 30 whose charging flag is not \<^verbatim>\<open>false\<close> still gets
  the critical issue when it is below 20. The input: battery 15, charging \<^verbatim>\<open>true\<close>.
\<close>

theorem critical_battery_while_charging:
  "battery (example_route (JNum 15) (JBool True) (JNum 1700000000)) = JNum 15 \<and>
   (15 :: rat) < 30 \<and>
   charging (example_route (JNum 15) (JBool True) (JNum 1700000000)) \<noteq> JBool False \<and>
   battery_issues (example_route (JNum 15) (JBool True) (JNum 1700000000))
     = [''Critical battery level (15%)'']"
  by (simp add: example_route_simps battery_issues_def CRITICAL_BATTERY_THRESHOLD_def
      critical_battery_issue_def pos_to_string_15)

text \<open>
  C2, amended. A battery of 30 or more, and a battery from 20 up to 30 whose charging flag
  is not the Boolean \<^verbatim>\<open>false\<close>, get no battery issue.
\<close>

theorem no_battery_issue:
  "battery r = JNum b \<Longrightarrow> 30 \<le> b \<or> (20 \<le> b \<and> charging r \<noteq> JBool False)
   \<Longrightarrow> battery_issues r = []"
  by (auto simp: battery_issues_def CRITICAL_BATTERY_THRESHOLD_def WARNING_BATTERY_THRESHOLD_def)

theorem no_battery_issue_witness:
  "battery_issues (example_route (JNum 80) (JBool False) (JNum 1700000000)) = [] \<and>
   battery_issues (example_route (JNum 25) JUndefined (JNum 1700000000)) = [] \<and>
   battery_issues (example_route (JNum 25) (JBool True) (JNum 1700000000)) = []"
  using no_battery_issue [of "example_route (JNum 80) (JBool False) (JNum 1700000000)" 80]
    no_battery_issue [of "example_route (JNum 25) JUndefined (JNum 1700000000)" 25]
    no_battery_issue [of "example_route (JNum 25) (JBool True) (JNum 1700000000)" 25]
  by (simp add: example_route_simps)

section \<open>The last-active rule\<close>

lemma staleness_number:
  "last_active_time r = JNum t \<Longrightarrow> t \<noteq> 0 \<Longrightarrow>
   staleness_issues r now =
     (let minutesAgo = js_div (js_sub (Fin (of_int now)) (js_mul (Fin t) (Fin 1000))) (Fin 60000)
      in if js_gt minutesAgo (Fin 1)
         then [''Last active '' @ toFixed minutesAgo 1 @ '' minutes ago''] else [])"
  by (simp add: staleness_issues_def Let_def)

lemma staleness_exactly_now:
  assumes "last_active_time r = JNum t" "t \<noteq> 0" "\<bar>now\<bar> \<le> 8640000000000000"
    and "t * 1000 = of_int now"
  shows "staleness_issues r now = []"
proof -
  have "fl (of_int now) = Fin (of_int now)" using assms(3) by (intro fl_of_int) simp
  moreover have "fl 0 = Fin 0" by (simp add: fl_def)
  ultimately show ?thesis
    using assms by (simp add: staleness_issues_def Let_def js_gt_def)
qed

lemma staleness_two_minutes:
  assumes "last_active_time r = JNum t" "t \<noteq> 0" "\<bar>now\<bar> \<le> 8640000000000000"
    and "t * 1000 = of_int now - 120000"
  shows "staleness_issues r now = [''Last active 2.0 minutes ago'']"
proof -
  have "fl (of_int (now - 120000)) = Fin (of_int (now - 120000))"
    using assms(3) by (intro fl_of_int) simp
  then have a: "fl (of_int now - 120000) = Fin (of_int now - 120000)" by simp
  have "fl (of_int 120000) = Fin (of_int 120000)" by (intro fl_of_int) simp
  then have b: "fl 120000 = Fin 120000" by simp
  have "fl (of_int 2) = Fin (of_int 2)" by (intro fl_of_int) simp
  then have c: "fl 2 = Fin 2" by simp
  show ?thesis
    using assms(1,2,4) by (simp add: staleness_issues_def Let_def js_gt_def a b c toFixed_2_Suc del: toFixed.simps)
qed

text \<open>
  For whole seconds and a clock of the current era the double arithmetic of the check is
  exact where it matters: the issue appears exactly when more than 60000 milliseconds
  have passed.
\<close>

lemma staleness_whole_seconds:
  assumes "last_active_time r = JNum (of_int t)" and "0 < t" and "1000 * t \<le> 8640000000000000"
    and "0 \<le> now" and "now \<le> 8640000000000000"
  shows "(staleness_issues r now \<noteq> []) = (60000 < now - 1000 * t)"
proof -
  let ?d = "now - 1000 * t"
  have "fl (of_int (t * 1000)) = Fin (of_int (t * 1000))"
    using assms(2,3) by (intro fl_of_int) simp
  then have m: "js_mul (Fin (of_int t)) (Fin 1000) = Fin (of_int (t * 1000))" by simp
  have "fl (of_int ?d) = Fin (of_int ?d)"
    using assms(2-5) by (intro fl_of_int) simp
  then have s: "js_sub (Fin (of_int now)) (Fin (of_int (t * 1000))) = Fin (of_int ?d)"
    by (simp add: mult.commute)
  have d: "js_div (Fin (of_int ?d)) (Fin 60000) = fl (of_int ?d / 60000)" by simp
  have g: "js_gt (fl (of_int ?d / 60000)) (Fin 1) = (60000 < ?d)"
  proof (cases "60000 < ?d")
    case True
    then have "60001 \<le> ?d" by simp
    then have "(60001 :: rat) \<le> of_int ?d" by (metis of_int_le_iff of_int_numeral)
    then have a: "60001 / 60000 \<le> (of_int ?d :: rat) / 60000" by simp
    have "?d < 2 ^ 53" using assms(2-5) by simp
    then have "(of_int ?d :: rat) < 2 ^ 53" by (metis of_int_less_iff of_int_numeral of_int_power)
    then have "(of_int ?d :: rat) / 60000 < 2 ^ 53" by simp
    from fl_gt_one[OF a this] True show ?thesis by simp
  next
    case False
    then have "?d \<le> 60000" by simp
    then have "(of_int ?d :: rat) \<le> 60000" by (metis of_int_le_iff of_int_numeral)
    then have "(of_int ?d :: rat) / 60000 \<le> 1" by simp
    from fl_le_one[OF this] False show ?thesis by simp
  qed
  have t: "truthy (JNum (of_int t))" using assms(2) by simp
  show ?thesis
    unfolding staleness_issues_def assms(1) Let_def to_number.simps m s d g
    using t by simp
qed

text \<open>
  C3. The last-active check comes first in the issue list and pushes at most one issue.
  A timestamp that is missing, null or zero gives \<^verbatim>\<open>Never reported active\<close>. Any other
  number gives the \<^verbatim>\<open>Last active\<close> issue, with the minutes written by \<^verbatim>\<open>toFixed(1)\<close>, exactly
  when the minutes computed in double arithmetic exceed 1. With the clock in the range
  of JavaScript time values, a timestamp equal to now gives no issue, and one 120
  seconds before now gives \<^verbatim>\<open>Last active 2.0 minutes ago\<close>. For a timestamp in whole
  seconds and a clock after 1970, the doubles agree with exact arithmetic: there is an
  issue exactly when \<open>now - 1000 * t\<close> exceeds 60000 milliseconds.
\<close>

theorem staleness_rule:
  "route_issues r now = staleness_issues r now @ battery_issues r \<and>
   length (staleness_issues r now) \<le> 1 \<and>
   (last_active_time r = JUndefined \<or> last_active_time r = JNull \<or> last_active_time r = JNum 0
      \<longrightarrow> staleness_issues r now = [''Never reported active'']) \<and>
   (\<forall>t. last_active_time r = JNum t \<and> t \<noteq> 0 \<longrightarrow>
      staleness_issues r now =
        (let minutesAgo = js_div (js_sub (Fin (of_int now)) (js_mul (Fin t) (Fin 1000))) (Fin 60000)
         in if js_gt minutesAgo (Fin 1)
            then [''Last active '' @ toFixed minutesAgo 1 @ '' minutes ago''] else [])) \<and>
   (\<forall>t. last_active_time r = JNum t \<and> t \<noteq> 0 \<and> \<bar>now\<bar> \<le> 8640000000000000
        \<and> t * 1000 = of_int now \<longrightarrow> staleness_issues r now = []) \<and>
   (\<forall>t. last_active_time r = JNum t \<and> t \<noteq> 0 \<and> \<bar>now\<bar> \<le> 8640000000000000
        \<and> t * 1000 = of_int now - 120000
        \<longrightarrow> staleness_issues r now = [''Last active 2.0 minutes ago'']) \<and>
   (\<forall>t. last_active_time r = JNum (of_int t) \<and> 0 < t \<and> 1000 * t \<le> 8640000000000000
        \<and> 0 \<le> now \<and> now \<le> 8640000000000000
        \<longrightarrow> (staleness_issues r now \<noteq> []) = (60000 < now - 1000 * t))"
proof -
  have a: "route_issues r now = staleness_issues r now @ battery_issues r"
    by (simp add: route_issues_def)
  have b: "length (staleness_issues r now) \<le> 1"
    by (simp add: staleness_issues_def Let_def)
  have c: "last_active_time r = JUndefined \<or> last_active_time r = JNull \<or> last_active_time r = JNum 0
      \<longrightarrow> staleness_issues r now = [''Never reported active'']"
    by (auto simp: staleness_issues_def)
  show ?thesis
    using a b c staleness_number[of r _ now] staleness_exactly_now[of r _ now]
      staleness_two_minutes[of r _ now] staleness_whole_seconds[of r _ now]
    by (intro conjI allI impI) blast+
qed

theorem staleness_rule_witness:
  "staleness_issues (example_route (JNum 80) JUndefined JUndefined) 1700000000000
     = [''Never reported active''] \<and>
   staleness_issues (example_route (JNum 80) JUndefined (JNum 0)) 1700000000000
     = [''Never reported active''] \<and>
   staleness_issues (example_route (JNum 80) JUndefined (JNum 1700000000)) 1700000000000 = [] \<and>
   staleness_issues (example_route (JNum 80) JUndefined (JNum 1699999880)) 1700000000000
     = [''Last active 2.0 minutes ago''] \<and>
   staleness_issues (example_route (JNum 80) JUndefined (JNum 1699999940)) 1700000000000 = [] \<and>
   staleness_issues (example_route (JNum 80) JUndefined (JNum 1699999939)) 1700000000000 \<noteq> []"
proof -
  let ?now = "1700000000000 :: int"
  let ?r1 = "example_route (JNum 80) JUndefined JUndefined"
  let ?r2 = "example_route (JNum 80) JUndefined (JNum 0)"
  let ?r3 = "example_route (JNum 80) JUndefined (JNum 1700000000)"
  let ?r4 = "example_route (JNum 80) JUndefined (JNum 1699999880)"
  from staleness_rule [of ?r1 ?now]
  have "last_active_time ?r1 = JUndefined \<or> last_active_time ?r1 = JNull
          \<or> last_active_time ?r1 = JNum 0
        \<longrightarrow> staleness_issues ?r1 ?now = [''Never reported active'']"
    by blast
  then have 1: "staleness_issues ?r1 ?now = [''Never reported active'']"
    by (simp add: example_route_simps)
  from staleness_rule [of ?r2 ?now]
  have "last_active_time ?r2 = JUndefined \<or> last_active_time ?r2 = JNull
          \<or> last_active_time ?r2 = JNum 0
        \<longrightarrow> staleness_issues ?r2 ?now = [''Never reported active'']"
    by blast
  then have 2: "staleness_issues ?r2 ?now = [''Never reported active'']"
    by (simp add: example_route_simps)
  from staleness_rule [of ?r3 ?now]
  have "\<forall>t. last_active_time ?r3 = JNum t \<and> t \<noteq> 0 \<and> \<bar>?now\<bar> \<le> 8640000000000000
          \<and> t * 1000 = of_int ?now \<longrightarrow> staleness_issues ?r3 ?now = []"
    by blast
  then have 3: "staleness_issues ?r3 ?now = []"
    by (simp add: example_route_simps)
  from staleness_rule [of ?r4 ?now]
  have "\<forall>t. last_active_time ?r4 = JNum t \<and> t \<noteq> 0 \<and> \<bar>?now\<bar> \<le> 8640000000000000
          \<and> t * 1000 = of_int ?now - 120000
        \<longrightarrow> staleness_issues ?r4 ?now = [''Last active 2.0 minutes ago'']"
    by blast
  then have 4: "staleness_issues ?r4 ?now = [''Last active 2.0 minutes ago'']"
    by (simp add: example_route_simps)
  let ?r5 = "example_route (JNum 80) JUndefined (JNum (of_int 1699999940))"
  let ?r6 = "example_route (JNum 80) JUndefined (JNum (of_int 1699999939))"
  from staleness_rule [of ?r5 ?now]
  have "\<forall>t. last_active_time ?r5 = JNum (of_int t) \<and> 0 < t \<and> 1000 * t \<le> 8640000000000000
          \<and> 0 \<le> ?now \<and> ?now \<le> 8640000000000000
        \<longrightarrow> (staleness_issues ?r5 ?now \<noteq> []) = (60000 < ?now - 1000 * t)"
    by blast
  from this [rule_format, of 1699999940]
  have 5: "staleness_issues ?r5 ?now = []"
    by (simp add: example_route_simps)
  from staleness_rule [of ?r6 ?now]
  have "\<forall>t. last_active_time ?r6 = JNum (of_int t) \<and> 0 < t \<and> 1000 * t \<le> 8640000000000000
          \<and> 0 \<le> ?now \<and> ?now \<le> 8640000000000000
        \<longrightarrow> (staleness_issues ?r6 ?now \<noteq> []) = (60000 < ?now - 1000 * t)"
    by blast
  from this [rule_format, of 1699999939]
  have 6: "staleness_issues ?r6 ?now \<noteq> []"
    by (simp add: example_route_simps)
  from 1 2 3 4 5 6 show ?thesis by simp
qed

section \<open>The persister\<close>

lemma emit_state:
  "trace (emit e s) = trace s @ [e]"
  "table (emit e s) = table s"
  "drawn (emit e s) = drawn s"
  by (simp_all add: emit_def)

lemma logError_state:
  "trace (logError c e s) = trace s @ [Console Error (logError_args c e)]"
  "table (logError c e s) = table s"
  "drawn (logError c e s) = drawn s"
  by (simp_all add: logError_def emit_def)

lemma insert_route_state:
  "trace (insert_route w runId k r s) =
     trace s @ ClientQuery (route_row w runId (drawn s) r)
       # (case client_query w k (route_row w runId (drawn s) r) of
            None \<Rightarrow> []
          | Some err \<Rightarrow> [Console Error (logError_args ''DB Insert Error (single route)'' err)])"
  "table (insert_route w runId k r s) =
     table s @ (case client_query w k (route_row w runId (drawn s) r) of
                  None \<Rightarrow> [route_row w runId (drawn s) r]
                | Some err \<Rightarrow> [])"
  "drawn (insert_route w runId k r s) = (if nullish (id' r) then Suc (drawn s) else drawn s)"
  by (simp_all add: insert_route_def route_row_def crypto_randomUUID_def emit_def logError_def
      Let_def split: option.splits)

lemma queries_of_append: "queries_of (xs @ ys) = queries_of xs @ queries_of ys"
  by (induction xs rule: queries_of.induct) simp_all

lemma insert_routes_drawn:
  "drawn (insert_routes w runId k rs s) = drawn s + length (filter (\<lambda>r. nullish (id' r)) rs)"
  by (induction rs arbitrary: k s) (simp_all add: insert_route_state)

text \<open>The loop sends one query per record, in order, whatever the database answers.\<close>

lemma insert_routes_queries:
  "\<exists>evs. trace (insert_routes w runId k rs s) = trace s @ evs
         \<and> queries_of evs = batch_rows w runId (drawn s) rs
         \<and> (\<forall>e\<in>set evs. is_query e \<or> is_error_log e)"
proof (induction rs arbitrary: k s)
  case Nil
  then show ?case by simp
next
  case (Cons r rs)
  let ?s1 = "insert_route w runId k r s"
  obtain evs where evs: "trace (insert_routes w runId (Suc k) rs ?s1) = trace ?s1 @ evs"
    "queries_of evs = batch_rows w runId (drawn ?s1) rs"
    "\<forall>e\<in>set evs. is_query e \<or> is_error_log e"
    using Cons.IH[where k = "Suc k" and s = ?s1] by blast
  let ?e1 = "ClientQuery (route_row w runId (drawn s) r)
       # (case client_query w k (route_row w runId (drawn s) r) of
            None \<Rightarrow> []
          | Some err \<Rightarrow> [Console Error (logError_args ''DB Insert Error (single route)'' err)])"
  have "trace (insert_routes w runId k (r # rs) s) = trace s @ (?e1 @ evs)"
    using evs(1) by (simp add: insert_route_state)
  moreover have "queries_of (?e1 @ evs) = batch_rows w runId (drawn s) (r # rs)"
    using evs(2) by (simp add: insert_route_state queries_of_append split: option.splits)
  moreover have "\<forall>e\<in>set (?e1 @ evs). is_query e \<or> is_error_log e"
    using evs(3) by (auto split: option.splits)
  ultimately show ?case by blast
qed

text \<open>A row is in the table once its query has succeeded.\<close>

lemma table_grows: "set (table s) \<subseteq> set (table (insert_routes w runId k rs s))"
proof (induction rs arbitrary: k s)
  case Nil
  then show ?case by simp
next
  case (Cons r rs)
  have "set (table s) \<subseteq> set (table (insert_route w runId k r s))"
    by (simp add: insert_route_state)
  with Cons.IH[where k = "Suc k" and s = "insert_route w runId k r s"] show ?case by auto
qed

lemma insert_routes_stored:
  "j < length rs \<Longrightarrow> client_query w (k + j) (batch_rows w runId (drawn s) rs ! j) = None
   \<Longrightarrow> batch_rows w runId (drawn s) rs ! j \<in> set (table (insert_routes w runId k rs s))"
proof (induction rs arbitrary: k s j)
  case Nil
  then show ?case by simp
next
  case (Cons r rs)
  let ?s1 = "insert_route w runId k r s"
  show ?case
  proof (cases j)
    case 0
    with Cons.prems have "route_row w runId (drawn s) r \<in> set (table ?s1)"
      by (simp add: insert_route_state)
    with table_grows[where s = ?s1 and w = w and runId = runId and k = "Suc k" and rs = rs] 0
    show ?thesis by auto
  next
    case (Suc i)
    with Cons.prems have "i < length rs"
      "client_query w (Suc k + i) (batch_rows w runId (drawn ?s1) rs ! i) = None"
      by (simp_all add: insert_route_state)
    from Cons.IH[OF this] Suc show ?thesis by (simp add: insert_route_state)
  qed
qed

lemma batch_rows_nth:
  "j < length rs \<Longrightarrow>
   batch_rows w runId d rs ! j
     = route_row w runId (d + length (filter (\<lambda>r. nullish (id' r)) (take j rs))) (rs ! j)"
proof (induction rs arbitrary: d j)
  case Nil
  then show ?case by simp
next
  case (Cons r rs)
  then show ?case by (cases j) simp_all
qed

lemma length_batch_rows: "length (batch_rows w runId d rs) = length rs"
  by (induction rs arbitrary: d) simp_all

text \<open>A stretch of the loop in which no insert fails.\<close>

lemma insert_routes_no_failure:
  assumes "\<forall>j vals. j = m \<or> client_query w j vals = None"
  shows "m < k \<Longrightarrow>
         trace (insert_routes w runId k rs s)
           = trace s @ map ClientQuery (batch_rows w runId (drawn s) rs)
         \<and> table (insert_routes w runId k rs s) = table s @ batch_rows w runId (drawn s) rs"
proof (induction rs arbitrary: k s)
  case Nil
  show ?case by simp
next
  case (Cons r rs)
  have ok: "client_query w k (route_row w runId (drawn s) r) = None"
    using assms Cons.prems by auto
  from Cons.prems have "m < Suc k" by simp
  from Cons.IH[OF this, where s = "insert_route w runId k r s"] ok
  show ?case by (simp add: insert_route_state)
qed

text \<open>The loop when the insert numbered \<open>m\<close> fails with \<open>err\<close> and no other does.\<close>

lemma insert_routes_one_failure:
  assumes "\<forall>j vals. j = m \<or> client_query w j vals = None"
  shows "k \<le> m \<Longrightarrow> m < k + length rs
    \<Longrightarrow> client_query w m (batch_rows w runId (drawn s) rs ! (m - k)) = Some err
    \<Longrightarrow> trace (insert_routes w runId k rs s)
          = trace s @ map ClientQuery (take (Suc (m - k)) (batch_rows w runId (drawn s) rs))
            @ Console Error (logError_args ''DB Insert Error (single route)'' err)
            # map ClientQuery (drop (Suc (m - k)) (batch_rows w runId (drawn s) rs))
        \<and> table (insert_routes w runId k rs s)
          = table s @ take (m - k) (batch_rows w runId (drawn s) rs)
            @ drop (Suc (m - k)) (batch_rows w runId (drawn s) rs)"
proof (induction rs arbitrary: k s)
  case Nil
  then show ?case by simp
next
  case (Cons r rs)
  let ?s1 = "insert_route w runId k r s"
  let ?row = "route_row w runId (drawn s) r"
  have d1: "drawn ?s1 = (if nullish (id' r) then Suc (drawn s) else drawn s)"
    by (simp add: insert_route_state)
  show ?case
  proof (cases "k = m")
    case True
    with Cons.prems have err: "client_query w k ?row = Some err" by simp
    have "m < Suc k" using True by simp
    from insert_routes_no_failure[OF assms this, where s = ?s1 and rs = rs and runId = runId]
    show ?thesis using True err d1 by (simp add: insert_route_state)
  next
    case False
    with Cons.prems have lt: "Suc k \<le> m" "m < Suc k + length rs" by simp_all
    from False have ok: "client_query w k ?row = None" using assms by auto
    from lt have mk: "m - k = Suc (m - Suc k)" by simp
    from Cons.prems(3) have "client_query w m (batch_rows w runId (drawn ?s1) rs ! (m - Suc k)) = Some err"
      by (simp add: mk d1)
    from Cons.IH[OF lt this] ok show ?thesis
      by (simp add: mk insert_route_state d1)
  qed
qed

text \<open>
  C4. A non-empty batch of which one insert, numbered \<open>m\<close>, fails with \<open>err\<close>: the
  connection is acquired, the records up to the failing one are sent, that failure is
  logged by \<^verbatim>\<open>logError\<close> under \<^verbatim>\<open>DB Insert Error (single route)\<close> (its message, or the
  error itself when it has none; status and data when it carries a response), the
  records after it are sent all the same, every row but the failing one reaches the
  table, the connection is released last, the call resolves, and the handler goes on to
  the notifier in the state the persister left.
\<close>

theorem insert_failure_isolated:
  assumes "rs \<noteq> []" and "pool_connect w = None" and "m < length rs"
    and "client_query w m (batch_rows w runId (drawn s) rs ! m) = Some err"
    and "\<forall>j vals. j = m \<or> client_query w j vals = None"
  shows "(let rows = batch_rows w runId (drawn s) rs;
              s' = \<lparr>trace = trace s @ [PoolConnect] @ map ClientQuery (take (Suc m) rows)
                            @ [Console Error
                                 (case err of
                                    Failure None msg \<Rightarrow>
                                      [Str ''[DB Insert Error (single route)]'',
                                       if msg = [] then Caught err else Str msg]
                                  | Failure (Some (st, d)) msg \<Rightarrow>
                                      [Str ''[DB Insert Error (single route)] Request failed'',
                                       Obj [(''status'', st), (''data'', d)]])]
                            @ map ClientQuery (drop (Suc m) rows) @ [ClientRelease],
                    table = table s @ take m rows @ drop (Suc m) rows,
                    drawn = drawn s + length (filter (\<lambda>r. nullish (id' r)) rs)\<rparr>
          in length rows = length rs
             \<and> storeUnhealthyRoutes w rs runId s = (None, s')
             \<and> persist_and_notify w rs runId s = sendSlackAlert w rs runId s')"
proof -
  let ?s1 = "emit PoolConnect s"
  let ?s2 = "insert_routes w runId 0 rs ?s1"
  let ?rows = "batch_rows w runId (drawn s) rs"
  have d: "drawn ?s1 = drawn s" "trace ?s1 = trace s @ [PoolConnect]" "table ?s1 = table s"
    by (simp_all add: emit_state)
  have "client_query w m (batch_rows w runId (drawn ?s1) rs ! (m - 0)) = Some err"
    using assms(4) by (simp add: d)
  from insert_routes_one_failure[OF assms(5) _ _ this] assms(3)
  have t: "trace ?s2 = trace s @ [PoolConnect] @ map ClientQuery (take (Suc m) ?rows)
            @ Console Error (logError_args ''DB Insert Error (single route)'' err)
            # map ClientQuery (drop (Suc m) ?rows)"
    and tb: "table ?s2 = table s @ take m ?rows @ drop (Suc m) ?rows"
    by (simp_all add: d)
  have args: "logError_args ''DB Insert Error (single route)'' err
      = (case err of
           Failure None msg \<Rightarrow>
             [Str ''[DB Insert Error (single route)]'', if msg = [] then Caught err else Str msg]
         | Failure (Some (st, d)) msg \<Rightarrow>
             [Str ''[DB Insert Error (single route)] Request failed'',
              Obj [(''status'', st), (''data'', d)]])"
    by (simp add: logError_args_def split: thrown.splits option.splits)
  have dr: "drawn ?s2 = drawn s + length (filter (\<lambda>r. nullish (id' r)) rs)"
    by (simp add: insert_routes_drawn d)
  have st: "storeUnhealthyRoutes w rs runId s = (None, emit ClientRelease ?s2)"
    using assms(1,2) by (simp add: storeUnhealthyRoutes_def Let_def)
  have eq: "emit ClientRelease ?s2
      = \<lparr>trace = trace s @ [PoolConnect] @ map ClientQuery (take (Suc m) ?rows)
                  @ [Console Error (logError_args ''DB Insert Error (single route)'' err)]
                  @ map ClientQuery (drop (Suc m) ?rows) @ [ClientRelease],
          table = table s @ take m ?rows @ drop (Suc m) ?rows,
          drawn = drawn s + length (filter (\<lambda>r. nullish (id' r)) rs)\<rparr>"
    by (rule state.equality) (simp_all add: emit_state t tb dr)
  have pn: "persist_and_notify w rs runId s = sendSlackAlert w rs runId (emit ClientRelease ?s2)"
    using st by (simp add: persist_and_notify_def)
  show ?thesis
    unfolding Let_def
    using st pn length_batch_rows[of w runId "drawn s" rs]
    by (simp only: eq args[symmetric] simp_thms)
qed


theorem insert_failure_isolated_witness:
  "example_batch \<noteq> [] \<and> pool_connect (example_world (Inr (Body None)) 1) = None \<and>
   1 < length example_batch \<and>
   client_query (example_world (Inr (Body None)) 1) 1
       (batch_rows (example_world (Inr (Body None)) 1) ''run-1'' 0 example_batch ! 1)
     = Some (Failure None ''value too long'') \<and>
   (\<forall>j vals. j = 1 \<or> client_query (example_world (Inr (Body None)) 1) j vals = None) \<and>
   storeUnhealthyRoutes (example_world (Inr (Body None)) 1) example_batch ''run-1'' empty_state
     = (None,
        \<lparr>trace =
           [PoolConnect,
            ClientQuery (batch_rows (example_world (Inr (Body None)) 1) ''run-1'' 0 example_batch ! 0),
            ClientQuery (batch_rows (example_world (Inr (Body None)) 1) ''run-1'' 0 example_batch ! 1),
            Console Error [Str ''[DB Insert Error (single route)]'', Str ''value too long''],
            ClientQuery (batch_rows (example_world (Inr (Body None)) 1) ''run-1'' 0 example_batch ! 2),
            ClientRelease],
         table =
           [batch_rows (example_world (Inr (Body None)) 1) ''run-1'' 0 example_batch ! 0,
            batch_rows (example_world (Inr (Body None)) 1) ''run-1'' 0 example_batch ! 2],
         drawn = 1\<rparr>) \<and>
   trace (persist_and_notify (example_world (Inr (Body None)) 1) example_batch ''run-1'' empty_state)
     = [PoolConnect,
        ClientQuery (batch_rows (example_world (Inr (Body None)) 1) ''run-1'' 0 example_batch ! 0),
        ClientQuery (batch_rows (example_world (Inr (Body None)) 1) ''run-1'' 0 example_batch ! 1),
        Console Error [Str ''[DB Insert Error (single route)]'', Str ''value too long''],
        ClientQuery (batch_rows (example_world (Inr (Body None)) 1) ''run-1'' 0 example_batch ! 2),
        ClientRelease,
        SlackPost (JStr ''C042'')
          (alert_text (example_world (Inr (Body None)) 1) example_batch ''run-1''),
        Console Log [Str ''Slack alert sent successfully.'']]"
proof -
  let ?w = "example_world (Inr (Body None)) 1"
  let ?rows = "batch_rows ?w ''run-1'' 0 example_batch"
  have q: "client_query ?w j vals = (if j = 1 then Some (Failure None ''value too long'') else None)"
    for j vals
    by (simp add: example_world_def)
  have h: "example_batch \<noteq> []" "pool_connect ?w = None" "1 < length example_batch"
    "client_query ?w 1 (batch_rows ?w ''run-1'' (drawn empty_state) example_batch ! 1)
       = Some (Failure None ''value too long'')"
    "\<forall>j vals. j = 1 \<or> client_query ?w j vals = None"
    by (simp_all add: q) (simp_all add: example_batch_def example_world_def)
  have d: "drawn empty_state = 0" "trace empty_state = []" "table empty_state = []"
    by (simp_all add: empty_state_def)
  have n: "length (filter (\<lambda>r. nullish (id' r)) example_batch) = 1"
    by (simp add: example_batch_def example_unhealthy_def nullish_def)
  have l: "length ?rows = 3"
    by (simp add: length_batch_rows example_batch_def)
  have tk: "take 2 ?rows = [?rows ! 0, ?rows ! 1]" "drop 2 ?rows = [?rows ! 2]"
    "take 1 ?rows = [?rows ! 0]"
  proof -
    obtain a b c where "?rows = [a, b, c]"
      using l by (auto simp: length_Suc_conv numeral_3_eq_3)
    then show "take 2 ?rows = [?rows ! 0, ?rows ! 1]" "drop 2 ?rows = [?rows ! 2]"
      "take 1 ?rows = [?rows ! 0]"
      by (simp_all add: numeral_2_eq_2)
  qed
  have ch: "env (SLACK_CHANNEL_ID ?w) = JStr ''C042''"
    "chat_postMessage ?w c t = None" for c t
    by (simp_all add: example_world_def env_def)
  from insert_failure_isolated [OF h]
  have r: "storeUnhealthyRoutes ?w example_batch ''run-1'' empty_state
      = (None,
         \<lparr>trace = [PoolConnect, ClientQuery (?rows ! 0), ClientQuery (?rows ! 1),
                   Console Error [Str ''[DB Insert Error (single route)]'', Str ''value too long''],
                   ClientQuery (?rows ! 2), ClientRelease],
           table = [?rows ! 0, ?rows ! 2], drawn = 1\<rparr>)"
    "persist_and_notify ?w example_batch ''run-1'' empty_state
      = sendSlackAlert ?w example_batch ''run-1''
          \<lparr>trace = [PoolConnect, ClientQuery (?rows ! 0), ClientQuery (?rows ! 1),
                   Console Error [Str ''[DB Insert Error (single route)]'', Str ''value too long''],
                   ClientQuery (?rows ! 2), ClientRelease],
           table = [?rows ! 0, ?rows ! 2], drawn = 1\<rparr>"
    by (simp_all add: Let_def d n tk length_batch_rows del: One_nat_def)
  have "trace (persist_and_notify ?w example_batch ''run-1'' empty_state)
     = [PoolConnect, ClientQuery (?rows ! 0), ClientQuery (?rows ! 1),
        Console Error [Str ''[DB Insert Error (single route)]'', Str ''value too long''],
        ClientQuery (?rows ! 2), ClientRelease,
        SlackPost (JStr ''C042'') (alert_text ?w example_batch ''run-1''),
        Console Log [Str ''Slack alert sent successfully.'']]"
    unfolding r(2)
    by (simp add: sendSlackAlert_def ch Let_def console_log_def emit_def del: One_nat_def)
  with r(1) h(1,2,3,5) h(4)[unfolded d] show ?thesis by (simp del: One_nat_def)
qed

text \<open>
  C5, as stated, fails: when \<^verbatim>\<open>pool.connect()\<close> rejects, the persister neither catches nor
  logs it. The call rejects with that very error, and all it has done is the connection
  attempt.
\<close>

theorem connect_failure_propagates:
  "storeUnhealthyRoutes example_world_no_db example_batch ''run-1'' empty_state
     = (Some (Failure None ''connect ECONNREFUSED''),
        \<lparr>trace = [PoolConnect], table = [], drawn = 0\<rparr>)"
  by (simp add: storeUnhealthyRoutes_def example_world_no_db_def example_world_def
      example_batch_def empty_state_def emit_def)

text \<open>
  C5, amended. When the connection cannot be acquired, the persister sends no query,
  releases nothing, logs nothing and rejects with the error; the handler catches it, logs
  it under \<^verbatim>\<open>storeUnhealthyRoutes failed\<close>, and then runs the notifier.
\<close>

theorem connect_failure_caught_by_handler:
  assumes "rs \<noteq> []" and "pool_connect w = Some err"
  shows "storeUnhealthyRoutes w rs runId s = (Some err, emit PoolConnect s) \<and>
         persist_and_notify w rs runId s
           = sendSlackAlert w rs runId
               (logError ''storeUnhealthyRoutes failed'' err (emit PoolConnect s))"
  using assms by (simp add: storeUnhealthyRoutes_def persist_and_notify_def)

theorem connect_failure_caught_by_handler_witness:
  "example_batch \<noteq> [] \<and>
   pool_connect example_world_no_db = Some (Failure None ''connect ECONNREFUSED'') \<and>
   trace (persist_and_notify example_world_no_db example_batch ''run-1'' empty_state)
     = [PoolConnect,
        Console Error [Str ''[storeUnhealthyRoutes failed]'', Str ''connect ECONNREFUSED''],
        SlackPost (JStr ''C042'') (alert_text example_world_no_db example_batch ''run-1''),
        Console Log [Str ''Slack alert sent successfully.'']]"
proof -
  have h: "example_batch \<noteq> []"
    "pool_connect example_world_no_db = Some (Failure None ''connect ECONNREFUSED'')"
    by (simp_all add: example_batch_def example_world_no_db_def)
  from connect_failure_caught_by_handler [OF h, of "''run-1''" empty_state] h
  show ?thesis
    by (simp add: sendSlackAlert_def logError_def logError_args_def emit_def console_log_def
        env_def empty_state_def example_world_no_db_def example_world_def Let_def)
qed

lemma route_row_explicit:
  "route_row w runId d r =
     [JStr runId,
      if id' r = JUndefined \<or> id' r = JNull then JStr (''unknown-'' @ randomUUID w d) else id' r,
      if truthy (name r) then name r else JNull,
      if truthy (phone_number r) then phone_number r else JNull,
      if truthy (country r) then country r else JNull,
      if truthy (app_version r) then app_version r else JNull,
      case battery r of JNum b \<Rightarrow> JNum b | _ \<Rightarrow> JNull,
      case charging r of JBool c \<Rightarrow> JBool c | _ \<Rightarrow> JNull,
      case last_active_time r of JNum t \<Rightarrow> JNum t | _ \<Rightarrow> JNull,
      JStr (json_stringify (issues r))]"
  by (simp add: route_row_def row_values_def js_or_def nullish_def typeof_def split: jsval.splits)

lemma filter_take_less:
  assumes "i < j" and "j \<le> length xs" and "P (xs ! i)"
  shows "length (filter P (take i xs)) < length (filter P (take j xs))"
proof -
  have "take j xs = take i xs @ xs ! i # drop (Suc i) (take j xs)"
    using assms(1,2)
    by (metis Cons_nth_drop_Suc append_take_drop_id length_take less_or_eq_imp_le min.absorb2
        nth_take take_take min.absorb1 order_less_imp_le)
  then have "filter P (take j xs) = filter P (take i xs) @ xs ! i # filter P (drop (Suc i) (take j xs))"
    using assms(3) by (metis filter.simps(2) filter_append)
  then show ?thesis by simp
qed

text \<open>
  C9. The row sent for the \<open>j\<close>-th record of a batch: the run id; the record's id, or,
  when that is null or missing, \<^verbatim>\<open>unknown-\<close> followed by the UUID drawn at that moment (a
  draw later than every earlier one, so no two placeholders of a run share it); name,
  phone number, country and app version when truthy, else null; battery when a number,
  charging when a Boolean, last-active time when a number, else null; the issues as JSON
  text. When its insert succeeds, that row is in the table.
\<close>

theorem logged_row_values:
  assumes "pool_connect w = None" and "j < length rs"
  shows "let r = rs ! j;
             fresh = drawn s + length (filter (\<lambda>x. nullish (id' x)) (take j rs));
             row = [JStr runId,
                    if id' r = JUndefined \<or> id' r = JNull
                    then JStr (''unknown-'' @ randomUUID w fresh) else id' r,
                    if truthy (name r) then name r else JNull,
                    if truthy (phone_number r) then phone_number r else JNull,
                    if truthy (country r) then country r else JNull,
                    if truthy (app_version r) then app_version r else JNull,
                    case battery r of JNum b \<Rightarrow> JNum b | _ \<Rightarrow> JNull,
                    case charging r of JBool c \<Rightarrow> JBool c | _ \<Rightarrow> JNull,
                    case last_active_time r of JNum t \<Rightarrow> JNum t | _ \<Rightarrow> JNull,
                    JStr (json_stringify (issues r))]
         in (\<exists>s' evs. storeUnhealthyRoutes w rs runId s = (None, s')
               \<and> trace s' = trace s @ evs
               \<and> length (queries_of evs) = length rs
               \<and> queries_of evs ! j = row
               \<and> (client_query w j row = None \<longrightarrow> row \<in> set (table s')))
            \<and> drawn s \<le> fresh
            \<and> (\<forall>i. i < j \<and> nullish (id' (rs ! i))
                   \<longrightarrow> drawn s + length (filter (\<lambda>x. nullish (id' x)) (take i rs)) < fresh)"
proof -
  let ?s1 = "emit PoolConnect s"
  let ?s2 = "insert_routes w runId 0 rs ?s1"
  let ?s' = "emit ClientRelease ?s2"
  let ?fresh = "drawn s + length (filter (\<lambda>x. nullish (id' x)) (take j rs))"
  let ?row = "route_row w runId ?fresh (rs ! j)"
  from assms(2) have ne: "rs \<noteq> []" by auto
  obtain evs where evs: "trace ?s2 = trace ?s1 @ evs"
    "queries_of evs = batch_rows w runId (drawn ?s1) rs"
    using insert_routes_queries[where w = w and runId = runId and k = 0 and rs = rs and s = ?s1]
    by blast
  have d: "drawn ?s1 = drawn s" by (simp add: emit_def)
  have nth: "batch_rows w runId (drawn ?s1) rs ! j = ?row"
    using batch_rows_nth[OF assms(2)] d by simp
  have st: "storeUnhealthyRoutes w rs runId s = (None, ?s')"
    using ne assms(1) by (simp add: storeUnhealthyRoutes_def Let_def)
  have tr: "trace ?s' = trace s @ ([PoolConnect] @ evs @ [ClientRelease])"
    using evs(1) by (simp add: emit_def)
  have q: "queries_of ([PoolConnect] @ evs @ [ClientRelease]) = batch_rows w runId (drawn ?s1) rs"
    using evs(2) by (simp add: queries_of_append)
  have len: "length (queries_of ([PoolConnect] @ evs @ [ClientRelease])) = length rs"
    using q by (simp add: length_batch_rows)
  have stored: "client_query w j ?row = None \<longrightarrow> ?row \<in> set (table ?s')"
  proof
    assume "client_query w j ?row = None"
    then have "client_query w (0 + j) (batch_rows w runId (drawn ?s1) rs ! j) = None"
      using nth by simp
    from insert_routes_stored[OF assms(2) this] nth show "?row \<in> set (table ?s')"
      by (simp add: emit_def)
  qed
  have fresh: "\<forall>i. i < j \<and> nullish (id' (rs ! i))
      \<longrightarrow> drawn s + length (filter (\<lambda>x. nullish (id' x)) (take i rs)) < ?fresh"
    using filter_take_less[where P = "\<lambda>x. nullish (id' x)" and xs = rs and j = j] assms(2)
    by auto
  have "\<exists>s' evs. storeUnhealthyRoutes w rs runId s = (None, s')
               \<and> trace s' = trace s @ evs
               \<and> length (queries_of evs) = length rs
               \<and> queries_of evs ! j = ?row
               \<and> (client_query w j ?row = None \<longrightarrow> ?row \<in> set (table s'))"
    using st tr len q nth stored by metis
  with fresh show ?thesis
    unfolding Let_def route_row_explicit[symmetric] by simp
qed

lemma json_stringify_example:
  "json_stringify [''Last active 5.0 minutes ago'', ''Critical battery level (15%)'']
     = ''['' @ [CHR 0x22] @ ''Last active 5.0 minutes ago'' @ [CHR 0x22] @ '',''
       @ [CHR 0x22] @ ''Critical battery level (15%)'' @ [CHR 0x22] @ '']''"
  by code_simp

lemma digits10_small: "digits10 0 = ''0''" "digits10 1 = ''1''"
  by code_simp+

theorem logged_row_values_witness:
  "pool_connect (example_world (Inr (Body None)) 5) = None \<and> 1 < length example_batch \<and>
   queries_of (trace (snd (storeUnhealthyRoutes (example_world (Inr (Body None)) 5) example_batch
                             ''run-1'' empty_state))) ! 1
     = [JStr ''run-1'', JStr ''unknown-uuid-0'', JStr ''Router-Z'', JNull, JStr ''US'', JNull,
        JNum 15, JBool True, JNum 1700000000,
        JStr (''['' @ [CHR 0x22] @ ''Last active 5.0 minutes ago'' @ [CHR 0x22] @ '',''
              @ [CHR 0x22] @ ''Critical battery level (15%)'' @ [CHR 0x22] @ '']'')] \<and>
   [JStr ''run-1'', JStr ''unknown-uuid-0'', JStr ''Router-Z'', JNull, JStr ''US'', JNull,
    JNum 15, JBool True, JNum 1700000000,
    JStr (''['' @ [CHR 0x22] @ ''Last active 5.0 minutes ago'' @ [CHR 0x22] @ '',''
          @ [CHR 0x22] @ ''Critical battery level (15%)'' @ [CHR 0x22] @ '']'')]
     \<in> set (table (snd (storeUnhealthyRoutes (example_world (Inr (Body None)) 5) example_batch
                            ''run-1'' empty_state)))"
proof -
  let ?w = "example_world (Inr (Body None)) 5"
  have h: "pool_connect ?w = None" "1 < length example_batch"
    by (simp_all add: example_world_def example_batch_def)
  have q: "client_query ?w (Suc 0) vals = None" for vals
    by (simp add: example_world_def)
  have u: "randomUUID ?w 0 = ''uuid-0''"
    by (simp add: example_world_def digits10_small)
  from logged_row_values [OF h, of empty_state "''run-1''"] h
  show ?thesis
    by (auto simp: Let_def q u nullish_def example_batch_def example_unhealthy_def empty_state_def
        json_stringify_example queries_of_append)
qed

section \<open>The handler\<close>



text \<open>
  With unhealthy records, what the handler does after its log lines is the persister and
  then the notifier, under the run id drawn at the start.
\<close>

lemma handler_persists_then_notifies:
  assumes "axios_get w (phones_url (env (PROJECT_ID w))) = Inr (Body d)"
    and "find_unhealthy (filter (\<lambda>r. dsl_managed r = JBool True)
                           (case d of Some rs \<Rightarrow> rs | None \<Rightarrow> [])) (Date_now w) = u"
    and "u \<noteq> []"
  shows "\<exists>s9. table s9 = table s \<and> drawn s9 = Suc (drawn s)
              \<and> snd (monitorDSLRoutes w s) = persist_and_notify w u (randomUUID w (drawn s)) s9"
  using assms
  apply (simp add: monitorDSLRoutes_def Let_def crypto_randomUUID_def console_log_def emit_def)
  apply (intro exI conjI)
    prefer 3
    apply (rule refl)
   apply simp_all
  done

lemma monitor_response:
  "fst (monitorDSLRoutes w s) =
     (case axios_get w (phones_url (env (PROJECT_ID w))) of
        Inl err \<Rightarrow> \<lparr>status = 502, body = [(''error'', BStr ''Failed to fetch Telerivet routes'')]\<rparr>
      | Inr (NoBody which) \<Rightarrow> \<lparr>status = 500, body = [(''error'', BStr ''Unexpected server error'')]\<rparr>
      | Inr (Body d) \<Rightarrow>
          (let routes = filter (\<lambda>r. dsl_managed r = JBool True) (case d of Some rs \<Rightarrow> rs | None \<Rightarrow> []);
               unhealthy = find_unhealthy routes (Date_now w)
           in if unhealthy = []
              then \<lparr>status = 200,
                    body = [(''status'', BStr ''ok''), (''total_routes'', BNum (length routes)),
                            (''unhealthy_count'', BNum 0)]\<rparr>
              else \<lparr>status = 200,
                    body = [(''status'', BStr ''ok''), (''run_id'', BStr (randomUUID w (drawn s))),
                            (''total_routes'', BNum (length routes)),
                            (''unhealthy_count'', BNum (length unhealthy)),
                            (''unhealthy_routes'', BRoutes unhealthy)]\<rparr>))"
  by (simp add: monitorDSLRoutes_def Let_def crypto_randomUUID_def
      split: sum.splits response_data.splits prod.splits)

lemma example_route_managed: "dsl_managed (example_route b c t) = JBool True"
  by (simp add: dsl_managed_def example_route_def)

lemma example_route_critical:
  "route_issues (example_route (JNum 15) (JBool True) (JNum 1700000000)) 1700000000000
     = [''Critical battery level (15%)'']"
proof -
  have "staleness_issues (example_route (JNum 15) (JBool True) (JNum 1700000000)) 1700000000000 = []"
    by (rule staleness_exactly_now[where t = 1700000000]) (simp_all add: example_route_simps)
  then show ?thesis
    by (simp add: route_issues_def battery_issues_def example_route_simps
        CRITICAL_BATTERY_THRESHOLD_def critical_battery_issue_def pos_to_string_15)
qed

lemma example_route_healthy:
  "route_issues (example_route (JNum 80) (JBool False) (JNum 1700000000)) 1700000000000 = []"
proof -
  have "staleness_issues (example_route (JNum 80) (JBool False) (JNum 1700000000)) 1700000000000 = []"
    by (rule staleness_exactly_now[where t = 1700000000]) (simp_all add: example_route_simps)
  then show ?thesis
    by (simp add: route_issues_def battery_issues_def example_route_simps
        CRITICAL_BATTERY_THRESHOLD_def WARNING_BATTERY_THRESHOLD_def)
qed

text \<open>
  C7, as stated, fails: the all-healthy answer is 200 with the status, the total and the
  unhealthy count, and no run id.
\<close>

theorem healthy_response_without_run_id:
  "fst (monitorDSLRoutes (example_world example_healthy_answer 0) empty_state)
     = \<lparr>status = 200,
        body = [(''status'', BStr ''ok''), (''total_routes'', BNum 1), (''unhealthy_count'', BNum 0)]\<rparr> \<and>
   map_of (body (fst (monitorDSLRoutes (example_world example_healthy_answer 0) empty_state)))
     ''run_id'' = None"
proof -
  have "dsl_managed (example_route (JNum 80) (JBool False) (JNum 1700000000)) = JBool True"
    by (simp add: dsl_managed_def example_route_def)
  then show ?thesis
    by (simp add: monitor_response example_world_def example_healthy_answer_def
        example_route_healthy)
qed

text \<open>
  C7, amended. The handler answers 200 exactly when the gateway request succeeded with a
  body. That answer carries the status, the number of records left by the
  \<^verbatim>\<open>dsl_managed\<close> filter and the unhealthy count. When there are unhealthy records it also
  carries the run id (the UUID drawn at the start of the run) and the list of unhealthy
  records; when all are healthy it carries neither.
\<close>

theorem success_response_shape:
  "(status (fst (monitorDSLRoutes w s)) = 200)
     = (\<exists>d. axios_get w (phones_url (env (PROJECT_ID w))) = Inr (Body d)) \<and>
   (\<forall>d. axios_get w (phones_url (env (PROJECT_ID w))) = Inr (Body d) \<longrightarrow>
      (let routes = filter (\<lambda>r. dsl_managed r = JBool True) (case d of Some rs \<Rightarrow> rs | None \<Rightarrow> []);
           unhealthy = find_unhealthy routes (Date_now w);
           answer = body (fst (monitorDSLRoutes w s))
       in (unhealthy = [] \<longrightarrow>
             answer = [(''status'', BStr ''ok''), (''total_routes'', BNum (length routes)),
                       (''unhealthy_count'', BNum 0)]) \<and>
          (unhealthy \<noteq> [] \<longrightarrow>
             answer = [(''status'', BStr ''ok''), (''run_id'', BStr (randomUUID w (drawn s))),
                       (''total_routes'', BNum (length routes)),
                       (''unhealthy_count'', BNum (length unhealthy)),
                       (''unhealthy_routes'', BRoutes unhealthy)])))"
  by (auto simp: monitor_response Let_def split: sum.splits response_data.splits)

theorem success_response_shape_witness:
  "fst (monitorDSLRoutes (example_world example_healthy_answer 0) empty_state)
     = \<lparr>status = 200,
        body = [(''status'', BStr ''ok''), (''total_routes'', BNum 1), (''unhealthy_count'', BNum 0)]\<rparr> \<and>
   fst (monitorDSLRoutes (example_world example_unhealthy_answer 0) empty_state)
     = \<lparr>status = 200,
        body = [(''status'', BStr ''ok''), (''run_id'', BStr ''uuid-0''), (''total_routes'', BNum 1),
                (''unhealthy_count'', BNum 1),
                (''unhealthy_routes'',
                 BRoutes [unhealthy_of (example_route (JNum 15) (JBool True) (JNum 1700000000))
                            [''Critical battery level (15%)'']])]\<rparr>"
proof -
  let ?w1 = "example_world example_healthy_answer 0"
  let ?w2 = "example_world example_unhealthy_answer 0"
  let ?good = "example_route (JNum 80) (JBool False) (JNum 1700000000)"
  let ?low = "example_route (JNum 15) (JBool True) (JNum 1700000000)"
  have a1: "axios_get ?w1 (phones_url (env (PROJECT_ID ?w1))) = Inr (Body (Some [?good]))"
    and a2: "axios_get ?w2 (phones_url (env (PROJECT_ID ?w2))) = Inr (Body (Some [?low]))"
    by (simp_all add: example_world_def example_healthy_answer_def example_unhealthy_answer_def)
  have n: "Date_now ?w1 = 1700000000000" "Date_now ?w2 = 1700000000000"
    "randomUUID ?w2 0 = ''uuid-0''"
    by (simp_all add: example_world_def digits10_small)
  from success_response_shape [of ?w1 empty_state] a1
  have s1: "status (fst (monitorDSLRoutes ?w1 empty_state)) = 200"
    and "let routes = filter (\<lambda>r. dsl_managed r = JBool True) [?good];
             unhealthy = find_unhealthy routes (Date_now ?w1);
             answer = body (fst (monitorDSLRoutes ?w1 empty_state))
         in (unhealthy = [] \<longrightarrow>
               answer = [(''status'', BStr ''ok''), (''total_routes'', BNum (length routes)),
                         (''unhealthy_count'', BNum 0)]) \<and>
            (unhealthy \<noteq> [] \<longrightarrow>
               answer = [(''status'', BStr ''ok''), (''run_id'', BStr (randomUUID ?w1 (drawn empty_state))),
                         (''total_routes'', BNum (length routes)),
                         (''unhealthy_count'', BNum (length unhealthy)),
                         (''unhealthy_routes'', BRoutes unhealthy)])"
    by auto
  then have b1: "body (fst (monitorDSLRoutes ?w1 empty_state))
        = [(''status'', BStr ''ok''), (''total_routes'', BNum 1), (''unhealthy_count'', BNum 0)]"
    by (simp add: Let_def n example_route_managed example_route_healthy)
  from success_response_shape [of ?w2 empty_state] a2
  have s2: "status (fst (monitorDSLRoutes ?w2 empty_state)) = 200"
    and "let routes = filter (\<lambda>r. dsl_managed r = JBool True) [?low];
             unhealthy = find_unhealthy routes (Date_now ?w2);
             answer = body (fst (monitorDSLRoutes ?w2 empty_state))
         in (unhealthy = [] \<longrightarrow>
               answer = [(''status'', BStr ''ok''), (''total_routes'', BNum (length routes)),
                         (''unhealthy_count'', BNum 0)]) \<and>
            (unhealthy \<noteq> [] \<longrightarrow>
               answer = [(''status'', BStr ''ok''), (''run_id'', BStr (randomUUID ?w2 (drawn empty_state))),
                         (''total_routes'', BNum (length routes)),
                         (''unhealthy_count'', BNum (length unhealthy)),
                         (''unhealthy_routes'', BRoutes unhealthy)])"
    by auto
  then have b2: "body (fst (monitorDSLRoutes ?w2 empty_state))
        = [(''status'', BStr ''ok''), (''run_id'', BStr ''uuid-0''), (''total_routes'', BNum 1),
           (''unhealthy_count'', BNum 1),
           (''unhealthy_routes'', BRoutes [unhealthy_of ?low [''Critical battery level (15%)'']])]"
    by (simp add: Let_def n example_route_managed example_route_critical empty_state_def)
  have eq: "r = \<lparr>status = status r, body = body r\<rparr>" for r :: http_response
    by simp
  show ?thesis
    using eq[of "fst (monitorDSLRoutes ?w1 empty_state)"] eq[of "fst (monitorDSLRoutes ?w2 empty_state)"]
    by (simp only: s1 s2 b1 b2)
qed

section \<open>The notifier\<close>





section \<open>The one-shot script\<close>

text \<open>What the script appends to the trace, case by case.\<close>

lemma script_run:
  "testTelerivetRoutes w s =
     s\<lparr>trace := trace s @
       (if \<not> truthy (env (API_KEY w)) \<or> \<not> truthy (env (PROJECT_ID w))
        then [Console Error
                [Str ''Missing TELERIVET_API_KEY or TELERIVET_PROJECT_ID environment variables.''],
              ProcessExit 1]
        else [Console Log [Str (''Calling Telerivet API: '' @ phones_url (env (PROJECT_ID w)))],
              HttpGet (phones_url (env (PROJECT_ID w))) (env (API_KEY w))]
             @ (case axios_get w (phones_url (env (PROJECT_ID w))) of
                  Inl err \<Rightarrow> [Console Error (dev_logError_args ''Telerivet API Error'' err)]
                | Inr (NoBody which) \<Rightarrow>
                    [Console Error (dev_logError_args ''Unexpected Error'' (TypeError_data which))]
                | Inr (Body d) \<Rightarrow>
                    (let routes = (case d of Some rs \<Rightarrow> rs | None \<Rightarrow> []);
                         unhealthy = find_unhealthy routes (Date_now w);
                         text = ''DSL Route Health Check'' @ newline @ ''Unhealthy routes detected:''
                                @ newline @ join newline (map dev_alert_line unhealthy)
                     in [Console Log [Str (''Total routes found: '' @ count_string (length routes))],
                         Console Log [Str (newline @ banner)],
                         Console Log [Str ''ROUTE HEALTH SUMMARY''],
                         Console Log [Str banner]]
                        @ (if unhealthy = [] then [Console Log [Str ''All routes are healthy.'']]
                           else [Console Log [Str (''Unhealthy routes: '' @ count_string (length unhealthy))],
                                 Console Log [Pretty unhealthy],
                                 SlackPost (env (SLACK_CHANNEL_ID w)) text,
                                 case chat_postMessage w (env (SLACK_CHANNEL_ID w)) text of
                                   None \<Rightarrow> Console Log [Str ''Slack alert sent successfully.'']
                                 | Some err \<Rightarrow>
                                     Console Error (dev_logError_args ''Slack Notification Error'' err)]))))\<rparr>"
  by (simp add: testTelerivetRoutes_def dev_sendSlackAlert_def dev_logError_def console_log_def
      emit_def Let_def split: sum.splits response_data.splits option.splits)

text \<open>
  C10. A run of the script leaves the table and the UUID counter as they were. What it
  adds to the trace are console lines, the request to the gateway, at most one chat
  message and, when a credential is missing, the exit: no connection, query or release.
  When the gateway answers with an array, the route count logged is the length of the
  whole array and the records reported are the unhealthy ones among all of them, with
  no look at \<^verbatim>\<open>dsl_managed\<close>: one chat message listing them when there are any, none
  otherwise.
\<close>

theorem script_leaves_database_alone:
  "(let s' = testTelerivetRoutes w s; new = drop (length (trace s)) (trace s')
    in table s' = table s \<and> drawn s' = drawn s \<and> trace s' = trace s @ new \<and>
       (\<forall>e\<in>set new. is_console e \<or> is_http_get e \<or> is_slack_post e \<or> is_exit e) \<and>
       filter touches_database new = [] \<and>
       length (filter is_slack_post new) \<le> 1 \<and>
       (\<forall>rs. truthy (env (API_KEY w)) \<and> truthy (env (PROJECT_ID w))
               \<and> axios_get w (phones_url (env (PROJECT_ID w))) = Inr (Body (Some rs))
           \<longrightarrow> Console Log [Str (''Total routes found: '' @ count_string (length rs))] \<in> set new
               \<and> filter is_slack_post new
                   = (if find_unhealthy rs (Date_now w) = [] then []
                      else [SlackPost (env (SLACK_CHANNEL_ID w))
                              (''DSL Route Health Check'' @ newline @ ''Unhealthy routes detected:''
                               @ newline
                               @ join newline (map dev_alert_line (find_unhealthy rs (Date_now w))))])))"
proof -
  obtain evs where run: "testTelerivetRoutes w s = s\<lparr>trace := trace s @ evs\<rparr>"
    and evs: "evs =
       (if \<not> truthy (env (API_KEY w)) \<or> \<not> truthy (env (PROJECT_ID w))
        then [Console Error
                [Str ''Missing TELERIVET_API_KEY or TELERIVET_PROJECT_ID environment variables.''],
              ProcessExit 1]
        else [Console Log [Str (''Calling Telerivet API: '' @ phones_url (env (PROJECT_ID w)))],
              HttpGet (phones_url (env (PROJECT_ID w))) (env (API_KEY w))]
             @ (case axios_get w (phones_url (env (PROJECT_ID w))) of
                  Inl err \<Rightarrow> [Console Error (dev_logError_args ''Telerivet API Error'' err)]
                | Inr (NoBody which) \<Rightarrow>
                    [Console Error (dev_logError_args ''Unexpected Error'' (TypeError_data which))]
                | Inr (Body d) \<Rightarrow>
                    (let routes = (case d of Some rs \<Rightarrow> rs | None \<Rightarrow> []);
                         unhealthy = find_unhealthy routes (Date_now w);
                         text = ''DSL Route Health Check'' @ newline @ ''Unhealthy routes detected:''
                                @ newline @ join newline (map dev_alert_line unhealthy)
                     in [Console Log [Str (''Total routes found: '' @ count_string (length routes))],
                         Console Log [Str (newline @ banner)],
                         Console Log [Str ''ROUTE HEALTH SUMMARY''],
                         Console Log [Str banner]]
                        @ (if unhealthy = [] then [Console Log [Str ''All routes are healthy.'']]
                           else [Console Log [Str (''Unhealthy routes: '' @ count_string (length unhealthy))],
                                 Console Log [Pretty unhealthy],
                                 SlackPost (env (SLACK_CHANNEL_ID w)) text,
                                 case chat_postMessage w (env (SLACK_CHANNEL_ID w)) text of
                                   None \<Rightarrow> Console Log [Str ''Slack alert sent successfully.'']
                                 | Some err \<Rightarrow>
                                     Console Error (dev_logError_args ''Slack Notification Error'' err)]))))"
    using script_run[of w s] by blast
  have new: "drop (length (trace s)) (trace (testTelerivetRoutes w s)) = evs"
    by (simp add: run)
  have a: "table (testTelerivetRoutes w s) = table s" "drawn (testTelerivetRoutes w s) = drawn s"
    "trace (testTelerivetRoutes w s) = trace s @ evs"
    by (simp_all add: run)
  have b: "\<forall>e\<in>set evs. is_console e \<or> is_http_get e \<or> is_slack_post e \<or> is_exit e"
    by (simp add: evs Let_def split: sum.splits response_data.splits option.splits)
  have c: "filter touches_database evs = []"
    by (simp add: evs Let_def split: sum.splits response_data.splits option.splits)
  have d: "length (filter is_slack_post evs) \<le> 1"
    by (simp add: evs Let_def split: sum.splits response_data.splits option.splits)
  have e: "\<forall>rs. truthy (env (API_KEY w)) \<and> truthy (env (PROJECT_ID w))
               \<and> axios_get w (phones_url (env (PROJECT_ID w))) = Inr (Body (Some rs))
           \<longrightarrow> Console Log [Str (''Total routes found: '' @ count_string (length rs))] \<in> set evs
               \<and> filter is_slack_post evs
                   = (if find_unhealthy rs (Date_now w) = [] then []
                      else [SlackPost (env (SLACK_CHANNEL_ID w))
                              (''DSL Route Health Check'' @ newline @ ''Unhealthy routes detected:''
                               @ newline
                               @ join newline (map dev_alert_line (find_unhealthy rs (Date_now w))))])"
    by (simp add: evs Let_def split: option.splits)
  from a b c d e show ?thesis
    unfolding Let_def new by blast
qed

lemma example_unmanaged_issues:
  "dsl_managed example_unmanaged = JUndefined"
  "route_issues example_unmanaged 1700000000000 = [''Critical battery level (15%)'']"
proof -
  show "dsl_managed example_unmanaged = JUndefined"
    by (simp add: example_unmanaged_def dsl_managed_def)
  have "staleness_issues example_unmanaged 1700000000000 = []"
    by (rule staleness_exactly_now[where t = 1700000000]) (simp_all add: example_unmanaged_def)
  then show "route_issues example_unmanaged 1700000000000 = [''Critical battery level (15%)'']"
    by (simp add: route_issues_def battery_issues_def example_unmanaged_def
        CRITICAL_BATTERY_THRESHOLD_def critical_battery_issue_def pos_to_string_15)
qed

theorem script_leaves_database_alone_witness:
  "table (testTelerivetRoutes (example_world (Inr (Body (Some [example_unmanaged]))) 0) empty_state) = [] \<and>
   filter touches_database
     (trace (testTelerivetRoutes (example_world (Inr (Body (Some [example_unmanaged]))) 0) empty_state))
     = [] \<and>
   filter is_slack_post
     (trace (testTelerivetRoutes (example_world (Inr (Body (Some [example_unmanaged]))) 0) empty_state))
     = [SlackPost (JStr ''C042'')
          (''DSL Route Health Check'' @ newline @ ''Unhealthy routes detected:'' @ newline
           @ bullet @ '' Router-B (+15550109): Critical battery level (15%)'')]"
proof -
  let ?w = "example_world (Inr (Body (Some [example_unmanaged]))) 0"
  let ?s' = "testTelerivetRoutes ?w empty_state"
  have h: "truthy (env (API_KEY ?w))" "truthy (env (PROJECT_ID ?w))"
    "axios_get ?w (phones_url (env (PROJECT_ID ?w))) = Inr (Body (Some [example_unmanaged]))"
    by (simp_all add: example_world_def env_def)
  have n: "env (SLACK_CHANNEL_ID ?w) = JStr ''C042''"
    by (simp add: example_world_def env_def)
  have u: "find_unhealthy [example_unmanaged] (Date_now ?w)
      = [unhealthy_of example_unmanaged [''Critical battery level (15%)'']]"
    by (simp add: example_unmanaged_issues example_world_def)
  have l: "dev_alert_line (unhealthy_of example_unmanaged [''Critical battery level (15%)''])
      = bullet @ '' Router-B (+15550109): Critical battery level (15%)''"
    by (simp add: dev_alert_line_def unhealthy_of_def example_unmanaged_def)
  have e: "drop (length (trace empty_state)) (trace ?s') = trace ?s'"
    by (simp add: empty_state_def)
  from script_leaves_database_alone [of ?w empty_state]
  have t: "table ?s' = table empty_state"
    and d: "filter touches_database (drop (length (trace empty_state)) (trace ?s')) = []"
    and "\<forall>rs. truthy (env (API_KEY ?w)) \<and> truthy (env (PROJECT_ID ?w))
               \<and> axios_get ?w (phones_url (env (PROJECT_ID ?w))) = Inr (Body (Some rs))
           \<longrightarrow> filter is_slack_post (drop (length (trace empty_state)) (trace ?s'))
                   = (if find_unhealthy rs (Date_now ?w) = [] then []
                      else [SlackPost (env (SLACK_CHANNEL_ID ?w))
                              (''DSL Route Health Check'' @ newline @ ''Unhealthy routes detected:''
                               @ newline
                               @ join newline (map dev_alert_line (find_unhealthy rs (Date_now ?w))))])"
    unfolding Let_def by blast+
  with h have "filter is_slack_post (drop (length (trace empty_state)) (trace ?s'))
      = (if find_unhealthy [example_unmanaged] (Date_now ?w) = [] then []
         else [SlackPost (env (SLACK_CHANNEL_ID ?w))
                 (''DSL Route Health Check'' @ newline @ ''Unhealthy routes detected:''
                  @ newline
                  @ join newline (map dev_alert_line (find_unhealthy [example_unmanaged] (Date_now ?w))))])"
    by blast
  then have p: "filter is_slack_post (trace ?s')
      = [SlackPost (JStr ''C042'')
          (''DSL Route Health Check'' @ newline @ ''Unhealthy routes detected:'' @ newline
           @ bullet @ '' Router-B (+15550109): Critical battery level (15%)'')]"
    unfolding e u n by (simp add: l)
  from t d p show ?thesis
    unfolding e by (simp add: empty_state_def)
qed

end
